theory Spec2Isabelle
  imports Complex_Main
begin

section \<open>Vector-field following in prpy: the data model\<close>

text \<open>
  The development embeds \<^verbatim>\<open>src/prpy/planning/vectorfield.py\<close> (the status protocol,
  the two closures \<^verbatim>\<open>fn_status_callback\<close> and \<^verbatim>\<open>fn_callback\<close> of
  \<^verbatim>\<open>FollowVectorField\<close>, the construction of the returned trajectory and the planning
  methods that call it), the snap planner of \<^verbatim>\<open>src/prpy/planning/snap.py\<close>, and
  \<^verbatim>\<open>PostProcessPath\<close>, \<^verbatim>\<open>ExecutePath\<close>, \<^verbatim>\<open>ExecuteTrajectory\<close> and the planning wrapper
  of \<^verbatim>\<open>src/prpy/base/robot.py\<close>.

  Python floats are modelled as \<^typ>\<open>real\<close>: rounding is not part of the model.
  A configuration is the numpy vector of the active joint values.
\<close>

type_synonym config = "real list"

text \<open>A collision report is represented by the text it carries.\<close>

type_synonym report = string

text \<open>\<^verbatim>\<open>class Status(Enum)\<close> with its two class methods.\<close>

datatype Status = TERMINATE | CACHE_AND_CONTINUE | CONTINUE | CACHE_AND_TERMINATE

definition DoesTerminate :: "Status \<Rightarrow> bool" where
  "DoesTerminate status = (status \<in> set [TERMINATE, CACHE_AND_TERMINATE])"

definition DoesCache :: "Status \<Rightarrow> bool" where
  "DoesCache status = (status \<in> set [CACHE_AND_CONTINUE, CACHE_AND_TERMINATE])"

text \<open>
  The exceptions derived from \<^verbatim>\<open>PlanningError\<close> that the file raises or imports.
  \<^verbatim>\<open>JointLimitError\<close> carries \<^verbatim>\<open>dof_index\<close>, \<^verbatim>\<open>dof_value\<close>, \<^verbatim>\<open>dof_limit\<close> and
  \<^verbatim>\<open>description\<close>; \<^verbatim>\<open>ConstraintViolationPlanningError\<close> is what the termination
  predicate of \<^verbatim>\<open>PlanToEndEffectorOffset\<close> raises.
\<close>

datatype fault =
    PlanningError string
  | TerminationError
  | TimeLimitError
  | JointLimitError nat real real string
  | CollisionPlanningError report
  | SelfCollisionPlanningError report
  | ConstraintViolationPlanningError string

text \<open>The messages that the constructors in \<^verbatim>\<open>vectorfield.py\<close> pass to \<^verbatim>\<open>PlanningError\<close>.\<close>

fun message :: "fault \<Rightarrow> string option" where
  "message (PlanningError m) = Some m"
| "message TerminationError = Some ''Terminated by callback.''"
| "message TimeLimitError = Some ''Reached time limit.''"
| "message (ConstraintViolationPlanningError m) = Some m"
| "message _ = None"

text \<open>
  A waypoint of the raw path, in the configuration specification \<^verbatim>\<open>cspec\<close> (active
  joint values plus the delta-time group): the time since the previous waypoint and the
  joint values.
\<close>

type_synonym waypoint = "real \<times> config"

definition GetDuration :: "waypoint list \<Rightarrow> real" where
  "GetDuration ws = sum_list (map fst ws)"

text \<open>
  What the closures of \<^verbatim>\<open>FollowVectorField\<close> read and never write: the robot's limits,
  the wall-clock limit, the collision checker, the termination predicate and the
  discretization helper.

  \<^item> \<open>elapsed k\<close> is \<^verbatim>\<open>time.time() - time_start\<close> as read by the \<open>k\<close>-th run of the
    monitor (counted from 0);
  \<^item> \<open>CheckCollision q\<close> and \<open>CheckSelfCollision q\<close> are the collision queries with the
    robot at \<open>q\<close>; they give the report of a collision, if any;
  \<^item> \<open>fn_terminate k q\<close> is what the caller's predicate does at its \<open>k\<close>-th run with the
    robot at \<open>q\<close>: it returns a status or raises a planning error;
  \<^item> \<open>GetCollisionCheckPts\<close> is the helper of \<^verbatim>\<open>prpy.util\<close>, which is not among the
    sources at hand. The call site fixes its argument: the whole raw path recorded so
    far, with \<^verbatim>\<open>include_start=False\<close> and no start time. It is a parameter here.
\<close>

record scene =
  active_indices :: "nat list"
  q_limit_min :: config
  q_limit_max :: config
  timelimit :: real
  elapsed :: "nat \<Rightarrow> real"
  CheckCollision :: "config \<Rightarrow> report option"
  CheckSelfCollision :: "config \<Rightarrow> report option"
  fn_terminate :: "nat \<Rightarrow> config \<Rightarrow> fault + Status"
  GetCollisionCheckPts :: "waypoint list \<Rightarrow> (real \<times> config) list"

text \<open>
  What the closures write: the dictionary \<^verbatim>\<open>nonlocals\<close> (\<open>exception\<close>, \<open>t_cache\<close>,
  \<open>t_check\<close>), the raw trajectory \<open>path\<close>, the robot's active joint values \<open>robot_q\<close>
  (the shared state that \<^verbatim>\<open>SetActiveDOFValues\<close> commits), and the number of runs of
  the monitor so far, which indexes the clock and the predicate.
\<close>

record run_state =
  exception :: "fault option"
  t_cache :: "real option"
  t_check :: real
  path :: "waypoint list"
  robot_q :: config
  calls :: nat

section \<open>The constraint monitor\<close>

text \<open>
  numpy's elementwise comparison of two vectors, \<^verbatim>\<open>.any()\<close>, and the index
  \<^verbatim>\<open>.nonzero()[0][0]\<close> of the first true entry.
\<close>

definition lower_position_violations :: "config \<Rightarrow> config \<Rightarrow> bool list" where
  "lower_position_violations q q_min = map (\<lambda>(x, l). x < l) (zip q q_min)"

definition upper_position_violations :: "config \<Rightarrow> config \<Rightarrow> bool list" where
  "upper_position_violations q q_max = map (\<lambda>(x, u). x > u) (zip q q_max)"

definition any_true :: "bool list \<Rightarrow> bool" where
  "any_true bs = (True \<in> set bs)"

fun nonzero_from :: "nat \<Rightarrow> bool list \<Rightarrow> nat list" where
  "nonzero_from k [] = []"
| "nonzero_from k (b # bs) =
     (if b then k # nonzero_from (Suc k) bs else nonzero_from (Suc k) bs)"

definition nonzero :: "bool list \<Rightarrow> nat list" where
  "nonzero bs = nonzero_from 0 bs"

text \<open>
  \<^verbatim>\<open>fn_status_callback(t, q)\<close>. A raise keeps the writes made before it, so the result
  is the exception raised, if any, together with the state left behind.
\<close>

definition fn_status_callback ::
  "scene \<Rightarrow> real \<Rightarrow> config \<Rightarrow> run_state \<Rightarrow> fault option \<times> run_state" where
  "fn_status_callback env t q s =
    (let k = calls s; s0 = s\<lparr>calls := Suc k\<rparr> in
     if elapsed env k \<ge> timelimit env then (Some TimeLimitError, s0)
     else if any_true (lower_position_violations q (q_limit_min env)) then
       (let index = hd (nonzero (lower_position_violations q (q_limit_min env))) in
        (Some (JointLimitError (active_indices env ! index) (q ! index)
                 (q_limit_min env ! index) ''position''), s0))
     else if any_true (upper_position_violations q (q_limit_max env)) then
       (let index = hd (nonzero (upper_position_violations q (q_limit_max env))) in
        (Some (JointLimitError (active_indices env ! index) (q ! index)
                 (q_limit_max env ! index) ''position''), s0))
     else
       (let s1 = s0\<lparr>robot_q := q\<rparr> in
        case CheckCollision env q of
          Some r \<Rightarrow> (Some (CollisionPlanningError r), s1)
        | None \<Rightarrow>
           (case CheckSelfCollision env q of
              Some r \<Rightarrow> (Some (SelfCollisionPlanningError r), s1)
            | None \<Rightarrow>
               (case fn_terminate env k q of
                  Inl e \<Rightarrow> (Some e, s1)
                | Inr status \<Rightarrow>
                   (let s2 = (if DoesCache status then s1\<lparr>t_cache := Some t\<rparr> else s1) in
                    if DoesTerminate status then (Some TerminationError, s2)
                    else (None, s2))))))"

text \<open>
  The sample passes the checks that precede the termination predicate: the wall clock,
  the position limits and the two collision queries.
\<close>

definition passes_checks :: "scene \<Rightarrow> config \<Rightarrow> run_state \<Rightarrow> bool" where
  "passes_checks env q s =
    (elapsed env (calls s) < timelimit env
     \<and> \<not> any_true (lower_position_violations q (q_limit_min env))
     \<and> \<not> any_true (upper_position_violations q (q_limit_max env))
     \<and> CheckCollision env q = None
     \<and> CheckSelfCollision env q = None)"

section \<open>The solver callback and the integration\<close>

text \<open>
  The loop \<^verbatim>\<open>for t_check, q_check in checks\<close> of \<^verbatim>\<open>fn_callback\<close>: the monitor runs on
  each sample in the order of the list and the first exception leaves the loop.
\<close>

fun run_checks ::
  "scene \<Rightarrow> (real \<times> config) list \<Rightarrow> run_state \<Rightarrow> fault option \<times> run_state" where
  "run_checks env [] s = (None, s)"
| "run_checks env ((t_c, q_c) # cs) s =
     (case fn_status_callback env t_c q_c s of
        (Some e, s') \<Rightarrow> (Some e, s')
      | (None, s') \<Rightarrow> run_checks env cs (s'\<lparr>t_check := t_c\<rparr>))"

text \<open>
  \<^verbatim>\<open>fn_callback(t, q)\<close>, the solver's \<^verbatim>\<open>solout\<close>: the waypoint is inserted at the end of
  the path, then the checks run. It returns 0 to keep going; a planning error is stored
  in \<^verbatim>\<open>nonlocals['exception']\<close> and -1 stops the solver.
\<close>

definition append_waypoint :: "real \<Rightarrow> config \<Rightarrow> run_state \<Rightarrow> run_state" where
  "append_waypoint t q s = s\<lparr>path := path s @ [(t - GetDuration (path s), q)]\<rparr>"

definition checks_of :: "scene \<Rightarrow> real \<Rightarrow> config \<Rightarrow> run_state \<Rightarrow> (real \<times> config) list" where
  "checks_of env t q s1 =
    (if length (path s1) = 1 then [(t, q)] else GetCollisionCheckPts env (path s1))"

definition fn_callback ::
  "scene \<Rightarrow> real \<Rightarrow> config \<Rightarrow> run_state \<Rightarrow> int \<times> run_state" where
  "fn_callback env t q s =
    (let s1 = append_waypoint t q s in
     case run_checks env (checks_of env t q s1) s1 of
       (None, s2) \<Rightarrow> (0, s2)
     | (Some e, s2) \<Rightarrow> (- 1, s2\<lparr>exception := Some e\<rparr>))"

text \<open>
  \<^verbatim>\<open>integrator.integrate\<close>: the dopri5 solver reports the initial value and then every
  step it accepts to \<^verbatim>\<open>solout\<close>, and stops when \<^verbatim>\<open>solout\<close> returns -1. Which steps the
  solver takes is its own choice; the list of the steps it would report is the input
  here. Between two reports the solver evaluates the vector field through
  \<^verbatim>\<open>fn_wrapper\<close>, which sets the robot's active joint values before each evaluation;
  these evaluations are not part of the model, so \<open>robot_q\<close> holds what the monitor has
  written and is not followed from one callback to the next.
\<close>

fun integrate :: "scene \<Rightarrow> (real \<times> config) list \<Rightarrow> run_state \<Rightarrow> run_state" where
  "integrate env [] s = s"
| "integrate env ((t, q) # rest) s =
     (case fn_callback env t q s of
        (rc, s') \<Rightarrow> if rc = 0 then integrate env rest s' else s')"

section \<open>Building the returned trajectory\<close>

text \<open>
  The returned trajectory is initialised with \<^verbatim>\<open>output_cspec\<close>, the robot's active
  configuration specification without the delta-time group ("This also strips the
  (potentially infeasible) timing information"). A waypoint of it holds the joint values;
  its delta time is \<open>None\<close>, the group being absent. The tags are the dictionary that
  \<^verbatim>\<open>SetTrajectoryTags\<close> stores with the trajectory; a value is a Python bool or string.
\<close>

datatype Tags = CONSTRAINED | SMOOTH

datatype tag_value = BoolTag bool | StrTag string

record out_waypoint =
  deltatime :: "real option"
  joint_values :: config

record trajectory =
  waypoints :: "out_waypoint list"
  tags :: "Tags \<rightharpoonup> tag_value"

text \<open>
  \<^verbatim>\<open>output_path.Insert(index, data, cspec)\<close> converts data given in \<^verbatim>\<open>cspec\<close> to the
  specification of \<^verbatim>\<open>output_path\<close>: the joint values are kept, the delta time has no
  group to go to.
\<close>

definition to_output_cspec :: "waypoint \<Rightarrow> out_waypoint" where
  "to_output_cspec w = \<lparr>deltatime = None, joint_values = snd w\<rparr>"

text \<open>
  Modelled from the spec: the trajectory query \<^verbatim>\<open>GetFirstWaypointIndexAfterTime\<close> belongs
  to OpenRAVE and is not among the sources. The spec's truncation step selects "all
  RawPath waypoints with cumulative time strictly less than t_cache", so the index is the
  number of leading waypoints whose cumulative time is strictly less than the given time.
\<close>

fun first_index_from :: "real \<Rightarrow> real \<Rightarrow> waypoint list \<Rightarrow> nat" where
  "first_index_from acc t [] = 0"
| "first_index_from acc t ((dt, q) # ws) =
     (if acc + dt < t then Suc (first_index_from (acc + dt) t ws) else 0)"

definition GetFirstWaypointIndexAfterTime :: "waypoint list \<Rightarrow> real \<Rightarrow> nat" where
  "GetFirstWaypointIndexAfterTime ws t = first_index_from 0 t ws"

text \<open>\<^verbatim>\<open>GetWaypoints(startindex, endindex)\<close>: the upper bound is not included.\<close>

definition GetWaypoints :: "waypoint list \<Rightarrow> nat \<Rightarrow> nat \<Rightarrow> waypoint list" where
  "GetWaypoints ws i j = take (j - i) (drop i ws)"

text \<open>
  Modelled from the spec: \<^verbatim>\<open>path.Sample(t)\<close> belongs to OpenRAVE and is not among the
  sources. The spec's truncation step re-samples the recorded solution at the given time;
  the path's specification is the robot's \<^verbatim>\<open>'linear'\<close> one, so the sample interpolates
  linearly between the two waypoints around \<open>t\<close>, and is the first or the last waypoint
  outside the path's time range. Sampling an empty trajectory fails (\<open>None\<close>).
\<close>

definition lerp :: "config \<Rightarrow> config \<Rightarrow> real \<Rightarrow> config" where
  "lerp q0 q1 a = map (\<lambda>(x, y). x + a * (y - x)) (zip q0 q1)"

fun interpolate :: "real \<Rightarrow> config \<Rightarrow> waypoint list \<Rightarrow> real \<Rightarrow> waypoint" where
  "interpolate t_prev q_prev [] t = (0, q_prev)"
| "interpolate t_prev q_prev ((dt, q) # ws) t =
     (if t \<le> t_prev then (0, q_prev)
      else if t < t_prev + dt then (t - t_prev, lerp q_prev q ((t - t_prev) / dt))
      else interpolate (t_prev + dt) q ws t)"

definition Sample :: "waypoint list \<Rightarrow> real \<Rightarrow> waypoint option" where
  "Sample ws t = (case ws of [] \<Rightarrow> None | (dt0, q0) # rest \<Rightarrow> Some (interpolate dt0 q0 rest t))"

text \<open>
  Modelled from the spec: \<^verbatim>\<open>util.SetTrajectoryTags(traj, tags, append)\<close> is not among
  the sources. The trajectory carries "a metadata mapping of tags"; with \<^verbatim>\<open>append=True\<close>
  the given tags are added to the ones present, a given key replacing its old value.
\<close>

definition SetTrajectoryTags ::
  "trajectory \<Rightarrow> (Tags \<rightharpoonup> tag_value) \<Rightarrow> bool \<Rightarrow> trajectory" where
  "SetTrajectoryTags traj new_tags appending =
     traj\<lparr>tags := (if appending then tags traj ++ new_tags else new_tags)\<rparr>"

text \<open>
  The end of \<^verbatim>\<open>FollowVectorField\<close>, after the integration: without a cache time the
  pending exception (or a generic \<^verbatim>\<open>PlanningError\<close>) is raised; otherwise a pending
  exception goes to \<^verbatim>\<open>logger.warning\<close> and the output is built from the raw path. The
  result is the exception raised, or the trajectory with the exceptions logged.
\<close>

definition unknown_error :: fault where
  "unknown_error = PlanningError ''An unknown error has occurred.''"

definition build_output :: "waypoint list \<Rightarrow> real \<Rightarrow> trajectory option" where
  "build_output raw tc =
    (let cached_index = GetFirstWaypointIndexAfterTime raw tc;
         copied = map to_output_cspec (GetWaypoints raw 0 cached_index)
     in case Sample raw tc of
          None \<Rightarrow> None
        | Some w \<Rightarrow>
            Some (SetTrajectoryTags
                    \<lparr>waypoints = copied @ [to_output_cspec w], tags = Map.empty\<rparr>
                    [CONSTRAINED \<mapsto> StrTag ''true'', SMOOTH \<mapsto> StrTag ''true'']
                    True))"

definition finish :: "run_state \<Rightarrow> (fault option) + (trajectory \<times> fault list)" where
  "finish s =
    (case t_cache s of
       None \<Rightarrow> Inl (Some (case exception s of Some e \<Rightarrow> e | None \<Rightarrow> unknown_error))
     | Some tc \<Rightarrow>
        (case build_output (path s) tc of
           None \<Rightarrow> Inl None
         | Some traj \<Rightarrow> Inr (traj, (case exception s of Some e \<Rightarrow> [e] | None \<Rightarrow> []))))"

text \<open>
  \<^verbatim>\<open>FollowVectorField\<close>: \<open>q0\<close> is \<^verbatim>\<open>robot.GetActiveDOFValues()\<close>, the initial value of
  the solver, reported to \<^verbatim>\<open>solout\<close> at time 0; \<open>accepted\<close> are the steps the solver
  accepts after it. An error \<open>Inl (Some e)\<close> is the planning error \<open>e\<close>; \<open>Inl None\<close> stands
  for an exception of OpenRAVE itself (sampling an empty trajectory).
\<close>

definition initial_state :: "config \<Rightarrow> run_state" where
  "initial_state q0 =
    \<lparr>exception = None, t_cache = None, t_check = 0, path = [], robot_q = q0, calls = 0\<rparr>"

definition FollowVectorField ::
  "scene \<Rightarrow> config \<Rightarrow> (real \<times> config) list \<Rightarrow> (fault option) + (trajectory \<times> fault list)" where
  "FollowVectorField env q0 accepted =
     finish (integrate env ((0, q0) # accepted) (initial_state q0))"

text \<open>
  \<^verbatim>\<open>PlanToEndEffectorPose\<close>: its predicate \<^verbatim>\<open>CloseEnough\<close> compares the pose error at the
  robot's configuration with the tolerance, and the tag \<^verbatim>\<open>CONSTRAINED\<close> of the result
  is overwritten with \<^verbatim>\<open>False\<close>. Its \<^verbatim>\<open>timelimit\<close> is passed as the fourth positional
  argument, which is \<^verbatim>\<open>integration_timelimit\<close>, so the wall-clock limit of
  \<^verbatim>\<open>FollowVectorField\<close> keeps its default of 5 seconds.
\<close>

definition CloseEnough :: "(config \<Rightarrow> real) \<Rightarrow> real \<Rightarrow> config \<Rightarrow> Status" where
  "CloseEnough pose_error pose_error_tol q =
     (if pose_error q < pose_error_tol then TERMINATE else CONTINUE)"

definition PlanToEndEffectorPose ::
  "scene \<Rightarrow> (config \<Rightarrow> real) \<Rightarrow> real \<Rightarrow> config \<Rightarrow> (real \<times> config) list
     \<Rightarrow> (fault option) + (trajectory \<times> fault list)" where
  "PlanToEndEffectorPose env pose_error pose_error_tol q0 accepted =
    (case FollowVectorField
            (env\<lparr>timelimit := 5,
                 fn_terminate := (\<lambda>k q. Inr (CloseEnough pose_error pose_error_tol q))\<rparr>)
            q0 accepted of
       Inl e \<Rightarrow> Inl e
     | Inr (traj, logged) \<Rightarrow>
         Inr (SetTrajectoryTags traj [CONSTRAINED \<mapsto> BoolTag False] True, logged))"

text \<open>
  How \<^verbatim>\<open>Robot.PostProcessPath\<close> reads the tag: \<^verbatim>\<open>tags.get(Tags.CONSTRAINED, False)\<close>,
  tested by \<^verbatim>\<open>if constrained:\<close>, that is by Python's truth value.
\<close>

fun truth_value :: "tag_value \<Rightarrow> bool" where
  "truth_value (BoolTag b) = b"
| "truth_value (StrTag s) = (s \<noteq> [])"

definition tag_is_set :: "trajectory \<Rightarrow> Tags \<Rightarrow> bool" where
  "tag_is_set traj k = (case tags traj k of None \<Rightarrow> False | Some v \<Rightarrow> truth_value v)"

section \<open>Observing a run\<close>

text \<open>
  The runs of the monitor during a loop over checks, a callback and an integration, in
  the order in which they happen: each entry is the sample and the state in which the
  monitor starts. These functions follow \<open>run_checks\<close>, \<open>fn_callback\<close> and \<open>integrate\<close>
  step by step and only list what those do.
\<close>

fun monitor_runs ::
  "scene \<Rightarrow> (real \<times> config) list \<Rightarrow> run_state \<Rightarrow> (real \<times> config \<times> run_state) list" where
  "monitor_runs env [] s = []"
| "monitor_runs env ((t_c, q_c) # cs) s =
     (t_c, q_c, s) #
     (case fn_status_callback env t_c q_c s of
        (Some e, s') \<Rightarrow> []
      | (None, s') \<Rightarrow> monitor_runs env cs (s'\<lparr>t_check := t_c\<rparr>))"

definition callback_runs ::
  "scene \<Rightarrow> real \<Rightarrow> config \<Rightarrow> run_state \<Rightarrow> (real \<times> config \<times> run_state) list" where
  "callback_runs env t q s =
    (let s1 = append_waypoint t q s in monitor_runs env (checks_of env t q s1) s1)"

fun integrate_runs ::
  "scene \<Rightarrow> (real \<times> config) list \<Rightarrow> run_state \<Rightarrow> (real \<times> config \<times> run_state) list" where
  "integrate_runs env [] s = []"
| "integrate_runs env ((t, q) # rest) s =
     callback_runs env t q s @
     (case fn_callback env t q s of
        (rc, s') \<Rightarrow> if rc = 0 then integrate_runs env rest s' else [])"

text \<open>The cache pointer after each run of the monitor, in order.\<close>

definition cache_pointer_values ::
  "scene \<Rightarrow> (real \<times> config \<times> run_state) list \<Rightarrow> real option list" where
  "cache_pointer_values env runs =
     map (\<lambda>(t, q, s). t_cache (snd (fn_status_callback env t q s))) runs"

text \<open>The status that the predicate returns in a run of the monitor, if it gets that far.\<close>

definition signalled :: "scene \<Rightarrow> config \<Rightarrow> run_state \<Rightarrow> Status option" where
  "signalled env q s =
    (if passes_checks env q s then
       (case fn_terminate env (calls s) q of Inl e \<Rightarrow> None | Inr status \<Rightarrow> Some status)
     else None)"

definition signals_cache :: "scene \<Rightarrow> real \<times> config \<times> run_state \<Rightarrow> bool" where
  "signals_cache env r =
    (case signalled env (fst (snd r)) (snd (snd r)) of
       None \<Rightarrow> False | Some status \<Rightarrow> DoesCache status)"

text \<open>
  The runs of the monitor during a call of \<^verbatim>\<open>FollowVectorField\<close>, and the state in
  which the integration ends.
\<close>

definition call_runs ::
  "scene \<Rightarrow> config \<Rightarrow> (real \<times> config) list \<Rightarrow> (real \<times> config \<times> run_state) list" where
  "call_runs env q0 accepted = integrate_runs env ((0, q0) # accepted) (initial_state q0)"

definition call_end :: "scene \<Rightarrow> config \<Rightarrow> (real \<times> config) list \<Rightarrow> run_state" where
  "call_end env q0 accepted = integrate env ((0, q0) # accepted) (initial_state q0)"

text \<open>What \<^verbatim>\<open>logger.warning\<close> receives when the call returns a trajectory.\<close>

definition logged_of :: "run_state \<Rightarrow> fault list" where
  "logged_of s = (case exception s of Some e \<Rightarrow> [e] | None \<Rightarrow> [])"

text \<open>What the call raises when no cache time was recorded.\<close>

definition raised_of :: "run_state \<Rightarrow> fault" where
  "raised_of s = (case exception s of Some e \<Rightarrow> e | None \<Rightarrow> unknown_error)"


text \<open>The sample of a run of the monitor, without the state.\<close>

definition sample_of :: "real \<times> config \<times> run_state \<Rightarrow> real \<times> config" where
  "sample_of r = (fst r, fst (snd r))"

text \<open>The cumulative times of the waypoints of a raw path: the sums of the time deltas.\<close>

fun times_from :: "real \<Rightarrow> waypoint list \<Rightarrow> real list" where
  "times_from acc [] = []"
| "times_from acc ((dt, q) # ws) = (acc + dt) # times_from (acc + dt) ws"

definition waypoint_times :: "waypoint list \<Rightarrow> real list" where
  "waypoint_times ws = times_from 0 ws"

text \<open>
  The cache time after a list of runs of the monitor, from the cache time before them:
  each run in which the predicate returns a caching status writes its sample's time.
\<close>

definition cache_after ::
  "scene \<Rightarrow> real option \<Rightarrow> (real \<times> config \<times> run_state) list \<Rightarrow> real option" where
  "cache_after env tc runs = foldl (\<lambda>c r. if signals_cache env r then Some (fst r) else c) tc runs"

section \<open>What the discretization helper owes\<close>




section \<open>The other planning methods\<close>

text \<open>
  What a call to the robot gives back: an exception or a value. The exceptions are the
  planning errors and the errors that Python, numpy and OpenRAVE raise themselves.
\<close>

datatype failure =
    Planning fault
  | ValueError string
  | TypeError
  | numpy_error
  | openrave_exception

definition as_outcome ::
  "(fault option) + (trajectory \<times> fault list) \<Rightarrow> failure + trajectory" where
  "as_outcome r =
    (case r of
       Inl None \<Rightarrow> Inl openrave_exception
     | Inl (Some e) \<Rightarrow> Inl (Planning e)
     | Inr (traj, logged) \<Rightarrow> Inr traj)"

text \<open>
  \<^verbatim>\<open>PlanToEndEffectorOffset\<close>. The arguments, and what the geodesic error between the
  start transform and the end-effector transform gives at a configuration of the robot:
  \<open>angular_error q\<close> is \<^verbatim>\<open>error[3]\<close>, \<open>distance_moved q\<close> is the dot product of
  \<^verbatim>\<open>error[0:3]\<close> with the direction, \<open>position_deviation q\<close> the norm of the rest, and
  \<open>direction_norm\<close> is \<^verbatim>\<open>numpy.linalg.norm(direction)\<close>.
\<close>

record offset_request =
  direction_norm :: real
  distance :: real
  max_distance :: "real option"
  position_tolerance :: real
  angular_tolerance :: real
  angular_error :: "config \<Rightarrow> real"
  distance_moved :: "config \<Rightarrow> real"
  position_deviation :: "config \<Rightarrow> real"

definition TerminateMove :: "offset_request \<Rightarrow> config \<Rightarrow> fault + Status" where
  "TerminateMove rq q =
    (if \<bar>angular_error rq q\<bar> > angular_tolerance rq then
       Inl (ConstraintViolationPlanningError ''Deviated from orientation constraint.'')
     else if position_deviation rq q > position_tolerance rq then
       Inl (ConstraintViolationPlanningError ''Deviated from straight line constraint.'')
     else
       Inr (case max_distance rq of
              None \<Rightarrow> if distance_moved rq q > distance rq then CACHE_AND_TERMINATE else CONTINUE
            | Some md \<Rightarrow>
                if distance_moved rq q > md then TERMINATE
                else if distance_moved rq q \<ge> distance rq then CACHE_AND_CONTINUE
                else CONTINUE))"

definition PlanToEndEffectorOffset ::
  "scene \<Rightarrow> offset_request \<Rightarrow> config \<Rightarrow> (real \<times> config) list \<Rightarrow> failure + trajectory" where
  "PlanToEndEffectorOffset env rq q0 accepted =
    (if distance rq < 0 then Inl (ValueError ''Distance must be non-negative.'')
     else if direction_norm rq = 0 then Inl (ValueError ''Direction must be non-zero'')
     else if (case max_distance rq of None \<Rightarrow> False | Some md \<Rightarrow> md < distance rq) then
       Inl (ValueError ''Max distance is less than minimum distance.'')
     else if position_tolerance rq < 0 then
       Inl (ValueError ''Position tolerance must be non-negative.'')
     else if angular_tolerance rq < 0 then
       Inl (ValueError ''Angular tolerance must be non-negative.'')
     else
       as_outcome (FollowVectorField
         (env\<lparr>timelimit := 5, fn_terminate := (\<lambda>k q. TerminateMove rq q)\<rparr>) q0 accepted))"

text \<open>
  The snap planner of \<^verbatim>\<open>snap.py\<close>. numpy subtracts two vectors of the same length
  entry by entry, stretches a vector of length one to the other's length, and fails on
  other lengths; \<^verbatim>\<open>.max()\<close> fails on an empty vector.
\<close>

definition numpy_subtract :: "config \<Rightarrow> config \<Rightarrow> config option" where
  "numpy_subtract a b =
    (if length a = length b then Some (map (\<lambda>(x, y). x - y) (zip a b))
     else if length a = 1 then Some (map (\<lambda>y. hd a - y) b)
     else if length b = 1 then Some (map (\<lambda>x. x - hd b) a)
     else None)"

definition numpy_max :: "real list \<Rightarrow> real option" where
  "numpy_max xs = (case xs of [] \<Rightarrow> None | x # rest \<Rightarrow> Some (fold max rest x))"

text \<open>
  \<^verbatim>\<open>_Snap\<close>: the trajectory has two waypoints, and both are filled from
  \<^verbatim>\<open>current_dof_values\<close>. Its specification has no delta-time group.
\<close>

definition Snap :: "config \<Rightarrow> config \<Rightarrow> real \<Rightarrow> failure + trajectory" where
  "Snap current_dof_values goal snap_tolerance =
    (case numpy_subtract goal current_dof_values of
       None \<Rightarrow> Inl numpy_error
     | Some d \<Rightarrow>
        (case numpy_max d of
           None \<Rightarrow> Inl numpy_error
         | Some m \<Rightarrow>
             if m > snap_tolerance then
               Inl (Planning (PlanningError ''Distance from goal larger than snap tolerance.''))
             else
               Inr \<lparr>waypoints =
                      [\<lparr>deltatime = None, joint_values = current_dof_values\<rparr>,
                       \<lparr>deltatime = None, joint_values = current_dof_values\<rparr>],
                    tags = Map.empty\<rparr>))"

definition PlanToConfiguration :: "config \<Rightarrow> config \<Rightarrow> real \<Rightarrow> failure + trajectory" where
  "PlanToConfiguration current_dof_values goal snap_tolerance =
     Snap current_dof_values goal snap_tolerance"

text \<open>
  \<^verbatim>\<open>SnapPlanner.PlanToEndEffectorPose\<close>: \<open>ik_solutions\<close> is what the manipulator's
  inverse kinematics finds, and \<open>first_sorted\<close> the solution that the sorting by score
  puts first, \<^verbatim>\<open>sorted_ik_solutions[0, :]\<close>.
\<close>

definition SnapToEndEffectorPose ::
  "config list \<Rightarrow> config \<Rightarrow> config \<Rightarrow> real \<Rightarrow> failure + trajectory" where
  "SnapToEndEffectorPose ik_solutions first_sorted current_dof_values snap_tolerance =
    (if ik_solutions = [] then
       Inl (Planning (PlanningError ''There is no IK solution at the goal pose.''))
     else Snap current_dof_values first_sorted snap_tolerance)"

section \<open>Post-processing and executing a trajectory\<close>

text \<open>
  What \<^verbatim>\<open>robot.py\<close> calls and the sources do not hold: the three post-processing
  planners (each returns a trajectory or raises), whether the robot is among the bodies
  that the trajectory uses, the robot's name, and \<^verbatim>\<open>util.WaitForControllers\<close>, which
  for a timeout either never returns (\<open>None\<close>), returns, or raises.
\<close>

record collaborators =
  retimer :: "trajectory \<Rightarrow> failure + trajectory"
  simplifier :: "trajectory \<Rightarrow> failure + trajectory"
  smoother :: "trajectory \<Rightarrow> failure + trajectory"
  in_used_bodies :: "trajectory \<Rightarrow> bool"
  GetName :: string
  WaitForControllers :: "real option \<Rightarrow> failure option option"

text \<open>A Python result is \<^verbatim>\<open>None\<close> or an object.\<close>

datatype 'a py_result = PyNone | PyObject 'a

text \<open>
  \<^verbatim>\<open>PostProcessPath\<close>, that is its \<^verbatim>\<open>do_postprocess\<close>: with \<^verbatim>\<open>defer=True\<close> the same
  function runs on an executor and the future returned takes its result or its
  exception. \<open>untimed\<close> is the argument \<^verbatim>\<open>path\<close>; \<open>constrained\<close> is the keyword of that
  name, \<open>None\<close> when it is left out; the tag is then read from the trajectory. The tag
  \<^verbatim>\<open>SMOOTH\<close> only leads to a warning. The copy that \<^verbatim>\<open>CopyTrajectory\<close> makes is the
  trajectory itself here.
\<close>

definition not_in_trajectory :: "string \<Rightarrow> string" where
  "not_in_trajectory name =
     ''Robot '' @ [CHR 0x22] @ name @ [CHR 0x22] @ '' is not in the trajectory.''"

definition PostProcessPath ::
  "collaborators \<Rightarrow> trajectory \<Rightarrow> bool option \<Rightarrow> failure + trajectory" where
  "PostProcessPath co untimed constrained =
    (let is_constrained =
           (case constrained of None \<Rightarrow> tag_is_set untimed CONSTRAINED | Some b \<Rightarrow> b)
     in if \<not> in_used_bodies co untimed then Inl (ValueError (not_in_trajectory (GetName co)))
        else if is_constrained then retimer co untimed
        else (case simplifier co untimed of
                Inl e \<Rightarrow> Inl e
              | Inr shortcut_path \<Rightarrow> smoother co shortcut_path))"

text \<open>
  \<^verbatim>\<open>time_stop = time.time() + (timeout if timeout else numpy.inf)\<close>: a timeout that is
  \<^verbatim>\<open>None\<close> or zero is false in Python; \<open>None\<close> stands for infinity here.
\<close>

definition time_stop_of :: "real \<Rightarrow> real option \<Rightarrow> real option" where
  "time_stop_of now timeout =
    (case timeout of
       None \<Rightarrow> None
     | Some x \<Rightarrow> if x = 0 then None else Some (now + x))"

definition before_stop :: "real \<Rightarrow> real option \<Rightarrow> bool" where
  "before_stop now time_stop = (case time_stop of None \<Rightarrow> True | Some ts \<Rightarrow> now \<le> ts)"

text \<open>
  The loop of \<^verbatim>\<open>do_poll\<close>. Each turn reads the clock and, within the deadline, asks
  every active controller \<^verbatim>\<open>IsDone()\<close>; the list holds what the turns observe. The
  result is \<open>None\<close> while the coroutine has not returned.
\<close>

fun do_poll :: "real option \<Rightarrow> (real \<times> bool list) list \<Rightarrow> 'a \<Rightarrow> 'a py_result option" where
  "do_poll time_stop [] traj = None"
| "do_poll time_stop ((now, dones) # rest) traj =
     (if before_stop now time_stop then
        (if list_all id dones then Some (PyObject traj) else do_poll time_stop rest traj)
      else Some PyNone)"

text \<open>
  \<^verbatim>\<open>ExecuteTrajectory\<close>: with \<^verbatim>\<open>defer=True\<close> the task runs \<^verbatim>\<open>do_poll\<close>, started at the
  time \<open>now\<close>; otherwise the trajectory it was given is returned once the wait for the
  controllers has returned. The result is \<open>None\<close> when the call or its task never ends.
  Handing the trajectory to the controller and collecting the active controllers come
  first in the source and are taken to return.
\<close>

definition ExecuteTrajectory ::
  "collaborators \<Rightarrow> 'a \<Rightarrow> bool \<Rightarrow> real option \<Rightarrow> real \<Rightarrow> (real \<times> bool list) list
     \<Rightarrow> (failure + 'a py_result) option" where
  "ExecuteTrajectory co traj defer timeout now polls =
    (if defer then map_option Inr (do_poll (time_stop_of now timeout) polls traj)
     else (case WaitForControllers co timeout of
             None \<Rightarrow> None
           | Some (Some e) \<Rightarrow> Some (Inl e)
           | Some None \<Rightarrow> Some (Inr (PyObject traj))))"

text \<open>
  \<^verbatim>\<open>ExecutePath\<close>: its \<^verbatim>\<open>do_execute\<close> post-processes and then executes, both with
  \<^verbatim>\<open>defer=False\<close>, and runs directly or on an executor. Further keywords are forwarded
  to both calls; \<open>rejected\<close> says that there is one that \<^verbatim>\<open>PostProcessPath\<close> does not
  take (such as \<^verbatim>\<open>execute\<close>), so that Python raises a \<^verbatim>\<open>TypeError\<close> at that call. Keywords
  that \<^verbatim>\<open>PostProcessPath\<close> takes are not modelled.
\<close>

definition ExecutePath ::
  "collaborators \<Rightarrow> trajectory \<Rightarrow> bool \<Rightarrow> bool \<Rightarrow> (failure + trajectory py_result) option" where
  "ExecutePath co untimed defer rejected =
    (let do_execute =
           (if rejected then Some (Inl TypeError)
            else (case PostProcessPath co untimed None of
                    Inl e \<Rightarrow> Some (Inl e)
                  | Inr traj \<Rightarrow> ExecuteTrajectory co traj False None 0 []))
     in if defer then do_execute else do_execute)"

text \<open>
  \<^verbatim>\<open>_PlanWrapper\<close>: \<open>planned\<close> is what the planning method returns or raises (with
  \<^verbatim>\<open>defer\<close>, what its future takes); \<open>kw_defer\<close> and \<open>kw_execute\<close> are the keywords
  \<^verbatim>\<open>defer\<close> and \<^verbatim>\<open>execute\<close> of the call, \<open>None\<close> when left out. All keywords are passed on
  to \<^verbatim>\<open>ExecutePath\<close>, so a keyword \<^verbatim>\<open>execute\<close> reaches \<^verbatim>\<open>PostProcessPath\<close>. The conversion
  of the trajectory's specification leaves the active joint values as they are.
\<close>

definition PlanWrapper ::
  "collaborators \<Rightarrow> failure + trajectory \<Rightarrow> bool option \<Rightarrow> bool option
     \<Rightarrow> (failure + trajectory py_result) option" where
  "PlanWrapper co planned kw_defer kw_execute =
    (case planned of
       Inl e \<Rightarrow> Some (Inl e)
     | Inr result \<Rightarrow>
        if (case kw_execute of None \<Rightarrow> True | Some b \<Rightarrow> b) then
          ExecutePath co result (case kw_defer of None \<Rightarrow> False | Some d \<Rightarrow> d)
            (kw_execute \<noteq> None)
        else Some (Inr (PyObject result)))"

text \<open>
  The result is an exception or a trajectory with at least one waypoint: not \<^verbatim>\<open>None\<close>
  and not an empty trajectory.
\<close>

definition trajectory_or_fault :: "failure + trajectory py_result \<Rightarrow> bool" where
  "trajectory_or_fault r =
    (case r of
       Inl e \<Rightarrow> True
     | Inr PyNone \<Rightarrow> False
     | Inr (PyObject traj) \<Rightarrow> waypoints traj \<noteq> [])"

text \<open>A post-processing planner that returns no empty trajectory.\<close>

definition returns_nonempty :: "(trajectory \<Rightarrow> failure + trajectory) \<Rightarrow> bool" where
  "returns_nonempty f = (\<forall>p t. f p = Inr t \<longrightarrow> waypoints t \<noteq> [])"

text \<open>
  A poll of \<^verbatim>\<open>do_poll\<close> that ends the loop: the clock is past the deadline, or every
  controller is done.
\<close>

definition ends_poll :: "real option \<Rightarrow> real \<times> bool list \<Rightarrow> bool" where
  "ends_poll time_stop p = (list_all id (snd p) \<or> \<not> before_stop (fst p) time_stop)"

section \<open>Concrete scenes for evaluation\<close>

text \<open>
  A discretization to evaluate runs with: the samples are the waypoints of the given path
  after its first, at their cumulative times (the path sampled at its own waypoints, the
  start left out).
\<close>

fun checks_from :: "real \<Rightarrow> waypoint list \<Rightarrow> (real \<times> config) list" where
  "checks_from acc [] = []"
| "checks_from acc ((dt, q) # ws) = (acc + dt, q) # checks_from (acc + dt) ws"

definition waypoint_checks :: "waypoint list \<Rightarrow> (real \<times> config) list" where
  "waypoint_checks ws = (case ws of [] \<Rightarrow> [] | (dt0, q0) # rest \<Rightarrow> checks_from dt0 rest)"

text \<open>
  A robot with one active joint between 0 and 10 and a wall-clock limit of 5 seconds; the
  predicate, the collision checker and the clock are given.
\<close>

definition one_dof_scene ::
  "(nat \<Rightarrow> config \<Rightarrow> fault + Status) \<Rightarrow> (config \<Rightarrow> report option) \<Rightarrow> (nat \<Rightarrow> real) \<Rightarrow> scene" where
  "one_dof_scene predicate collision clock =
    \<lparr>active_indices = [0], q_limit_min = [0], q_limit_max = [10], timelimit = 5,
     elapsed = clock, CheckCollision = collision, CheckSelfCollision = (\<lambda>q. None),
     fn_terminate = predicate, GetCollisionCheckPts = waypoint_checks\<rparr>"

text \<open>A predicate that asks to cache and continue once the joint has reached \<open>x\<close>.\<close>

definition cache_from :: "real \<Rightarrow> nat \<Rightarrow> config \<Rightarrow> fault + Status" where
  "cache_from x k q = Inr (if x \<le> q ! 0 then CACHE_AND_CONTINUE else CONTINUE)"

text \<open>A predicate that returns the same status every time.\<close>

definition always :: "Status \<Rightarrow> nat \<Rightarrow> config \<Rightarrow> fault + Status" where
  "always status k q = Inr status"

text \<open>An obstacle that the joint hits from \<open>x\<close> on.\<close>

definition obstacle_from :: "real \<Rightarrow> config \<Rightarrow> report option" where
  "obstacle_from x q = (if x \<le> q ! 0 then Some ''table'' else None)"

definition no_obstacle :: "config \<Rightarrow> report option" where
  "no_obstacle q = None"

text \<open>A clock that stays at 0 for the first \<open>n\<close> runs of the monitor and reads 10 after.\<close>

definition clock_jump :: "nat \<Rightarrow> nat \<Rightarrow> real" where
  "clock_jump n k = (if k < n then 0 else 10)"

text \<open>
  A robot with two active joints, the DOFs 2 and 5 of the robot, each between 0 and 10,
  in an environment where every configuration collides.
\<close>

definition two_dof_scene :: scene where
  "two_dof_scene =
    \<lparr>active_indices = [2, 5], q_limit_min = [0, 0], q_limit_max = [10, 10], timelimit = 5,
     elapsed = (\<lambda>k. 0), CheckCollision = (\<lambda>q. Some ''wall''),
     CheckSelfCollision = (\<lambda>q. None), fn_terminate = always CACHE_AND_CONTINUE,
     GetCollisionCheckPts = waypoint_checks\<rparr>"


text \<open>
  A second discretization to evaluate runs with: the given path sampled at the whole
  seconds after its start, up to its duration.
\<close>

definition unit_checks :: "waypoint list \<Rightarrow> (real \<times> config) list" where
  "unit_checks ws =
    map (\<lambda>k. (real k, case Sample ws (real k) of Some w \<Rightarrow> snd w | None \<Rightarrow> []))
      [1 ..< Suc (nat \<lfloor>GetDuration ws\<rfloor>)]"

text \<open>
  Post-processing planners that hand a trajectory back as it is and refuse an empty one,
  for a robot named herb that is in every trajectory, with a wait for the controllers
  that returns.
\<close>

definition keep_path :: "trajectory \<Rightarrow> failure + trajectory" where
  "keep_path p =
    (if waypoints p = [] then Inl (Planning (PlanningError ''The path is empty.'')) else Inr p)"

definition herb :: collaborators where
  "herb = \<lparr>retimer = keep_path, simplifier = keep_path, smoother = keep_path,
           in_used_bodies = (\<lambda>p. True), GetName = ''herb'',
           WaitForControllers = (\<lambda>timeout. Some None)\<rparr>"

text \<open>A trajectory of two waypoints without tags.\<close>

definition two_waypoints :: trajectory where
  "two_waypoints =
    \<lparr>waypoints = [\<lparr>deltatime = None, joint_values = [0]\<rparr>,
                  \<lparr>deltatime = None, joint_values = [1]\<rparr>],
     tags = Map.empty\<rparr>"

text \<open>The trajectory of a result, if it is one.\<close>

definition returned :: "(fault option) + (trajectory \<times> fault list) \<Rightarrow> trajectory option" where
  "returned r = (case r of Inl e \<Rightarrow> None | Inr (traj, logged) \<Rightarrow> Some traj)"

section \<open>Properties of the constraint monitor\<close>

subsection \<open>The index of the first violation\<close>

lemma hd_nonzero_from:
  "True \<in> set bs \<Longrightarrow>
     \<exists>i. hd (nonzero_from k bs) = k + i \<and> i < length bs \<and> bs ! i \<and> (\<forall>j<i. \<not> bs ! j)"
proof (induction bs arbitrary: k)
  case Nil
  then show ?case by simp
next
  case (Cons b bs)
  show ?case
  proof (cases b)
    case True
    then have "hd (nonzero_from k (b # bs)) = k + 0 \<and> 0 < length (b # bs) \<and> (b # bs) ! 0
        \<and> (\<forall>j<0. \<not> (b # bs) ! j)"
      by simp
    then show ?thesis by blast
  next
    case False
    with Cons.prems have "True \<in> set bs" by auto
    from Cons.IH [OF this, of "Suc k"] obtain i where
      i: "hd (nonzero_from (Suc k) bs) = Suc k + i" "i < length bs" "bs ! i" "\<forall>j<i. \<not> bs ! j"
      by blast
    have "\<forall>j<Suc i. \<not> (b # bs) ! j"
      using False i(4) by (auto simp: less_Suc_eq_0_disj)
    with False i have "hd (nonzero_from k (b # bs)) = k + Suc i \<and> Suc i < length (b # bs)
        \<and> (b # bs) ! Suc i \<and> (\<forall>j<Suc i. \<not> (b # bs) ! j)"
      by simp
    then show ?thesis by blast
  qed
qed

lemma first_nonzero:
  assumes "any_true bs"
  shows "hd (nonzero bs) < length bs \<and> bs ! hd (nonzero bs) \<and> (\<forall>j<hd (nonzero bs). \<not> bs ! j)"
  using hd_nonzero_from [of bs 0] assms by (auto simp: any_true_def nonzero_def)

lemma any_true_iff: "any_true bs \<longleftrightarrow> (\<exists>i<length bs. bs ! i)"
  by (auto simp: any_true_def in_set_conv_nth)

lemma lower_nth:
  "i < length q \<Longrightarrow> i < length l \<Longrightarrow> lower_position_violations q l ! i = (q ! i < l ! i)"
  by (simp add: lower_position_violations_def)

lemma upper_nth:
  "i < length q \<Longrightarrow> i < length u \<Longrightarrow> upper_position_violations q u ! i = (u ! i < q ! i)"
  by (simp add: upper_position_violations_def)

lemma lower_length: "length (lower_position_violations q l) = min (length q) (length l)"
  by (simp add: lower_position_violations_def)

lemma upper_length: "length (upper_position_violations q u) = min (length q) (length u)"
  by (simp add: upper_position_violations_def)

subsection \<open>Position limits come before the commit and before the collision queries\<close>

text \<open>
  Claim C3, as the code has it. When the wall clock is within its limit and the sample
  \<open>q\<close> violates a position limit, the monitor raises a \<^verbatim>\<open>JointLimitError\<close>, whatever the
  collision checker would say at \<open>q\<close>, and leaves the robot's configuration as it was: the
  only write is the count of the runs. The error names the robot's DOF
  \<^verbatim>\<open>active_indices[index]\<close>, the value \<^verbatim>\<open>q[index]\<close> and the violated bound, where
  \<open>index\<close> is the first joint below its lower limit if there is one, and otherwise the
  first joint above its upper limit.
\<close>

theorem position_limit_fault:
  assumes len: "length (q_limit_min env) = length q" "length (q_limit_max env) = length q"
    and clock: "elapsed env (calls s) < timelimit env"
    and viol: "\<exists>i<length q. q ! i < q_limit_min env ! i \<or> q_limit_max env ! i < q ! i"
  shows "\<exists>i bound. i < length q
      \<and> fn_status_callback env t q s =
          (Some (JointLimitError (active_indices env ! i) (q ! i) bound ''position''),
           s\<lparr>calls := Suc (calls s)\<rparr>)
      \<and> robot_q (snd (fn_status_callback env t q s)) = robot_q s
      \<and> ((q ! i < q_limit_min env ! i \<and> bound = q_limit_min env ! i
            \<and> (\<forall>j<i. \<not> q ! j < q_limit_min env ! j))
         \<or> ((\<forall>j<length q. \<not> q ! j < q_limit_min env ! j)
            \<and> q_limit_max env ! i < q ! i \<and> bound = q_limit_max env ! i
            \<and> (\<forall>j<i. \<not> q_limit_max env ! j < q ! j)))"
proof (cases "any_true (lower_position_violations q (q_limit_min env))")
  case True
  define i where "i = hd (nonzero (lower_position_violations q (q_limit_min env)))"
  from first_nonzero [OF True] have
    i: "i < length q" "q ! i < q_limit_min env ! i" "\<forall>j<i. \<not> q ! j < q_limit_min env ! j"
    using len by (auto simp: i_def lower_length lower_nth)
  have "fn_status_callback env t q s =
      (Some (JointLimitError (active_indices env ! i) (q ! i) (q_limit_min env ! i) ''position''),
       s\<lparr>calls := Suc (calls s)\<rparr>)"
    using True clock by (simp add: fn_status_callback_def Let_def i_def)
  with i show ?thesis by auto
next
  case False
  then have none: "\<forall>j<length q. \<not> q ! j < q_limit_min env ! j"
    using len by (auto simp: any_true_iff lower_length lower_nth)
  with viol have up: "any_true (upper_position_violations q (q_limit_max env))"
    using len by (auto simp: any_true_iff upper_length upper_nth)
  define i where "i = hd (nonzero (upper_position_violations q (q_limit_max env)))"
  from first_nonzero [OF up] have
    i: "i < length q" "q_limit_max env ! i < q ! i" "\<forall>j<i. \<not> q_limit_max env ! j < q ! j"
    using len by (auto simp: i_def upper_length upper_nth)
  have "fn_status_callback env t q s =
      (Some (JointLimitError (active_indices env ! i) (q ! i) (q_limit_max env ! i) ''position''),
       s\<lparr>calls := Suc (calls s)\<rparr>)"
    using False up clock by (simp add: fn_status_callback_def Let_def i_def)
  with i none show ?thesis by auto
qed

text \<open>
  The theorem at a sample whose second joint is above its upper limit, in an environment
  where every configuration collides: the joint limit is reported, for DOF 5.
\<close>

theorem position_limit_fault_witness:
  "length (q_limit_min two_dof_scene) = length [3, 12 :: real]
   \<and> length (q_limit_max two_dof_scene) = length [3, 12 :: real]
   \<and> elapsed two_dof_scene (calls (initial_state [1, 1])) < timelimit two_dof_scene
   \<and> (\<exists>i<length [3, 12 :: real]. [3, 12] ! i < q_limit_min two_dof_scene ! i
         \<or> q_limit_max two_dof_scene ! i < [3, 12] ! i)
   \<and> CheckCollision two_dof_scene [3, 12] = Some ''wall''
   \<and> fn_status_callback two_dof_scene 7 [3, 12] (initial_state [1, 1]) =
       (Some (JointLimitError 5 12 10 ''position''), (initial_state [1, 1])\<lparr>calls := 1\<rparr>)"
proof -
  have a: "length (q_limit_min two_dof_scene) = length [3, 12 :: real]"
    and b: "length (q_limit_max two_dof_scene) = length [3, 12 :: real]"
    and c: "elapsed two_dof_scene (calls (initial_state [1, 1])) < timelimit two_dof_scene"
    by (simp_all add: two_dof_scene_def initial_state_def)
  have d: "\<exists>i<length [3, 12 :: real]. [3, 12] ! i < q_limit_min two_dof_scene ! i
         \<or> q_limit_max two_dof_scene ! i < [3, 12] ! i"
    by (rule exI [of _ 1]) (simp add: two_dof_scene_def)
  from position_limit_fault [OF a b c d, of 7] obtain i bound where
    r: "fn_status_callback two_dof_scene 7 [3, 12] (initial_state [1, 1]) =
          (Some (JointLimitError (active_indices two_dof_scene ! i) ([3, 12] ! i) bound ''position''),
           (initial_state [1, 1])\<lparr>calls := Suc (calls (initial_state [1, 1]))\<rparr>)"
    by blast
  have e: "fn_status_callback two_dof_scene 7 [3, 12] (initial_state [1, 1]) =
       (Some (JointLimitError 5 12 10 ''position''), (initial_state [1, 1])\<lparr>calls := 1\<rparr>)"
    by code_simp
  have f: "CheckCollision two_dof_scene [3, 12] = Some ''wall''"
    by (simp add: two_dof_scene_def)
  from a b c d e f r show ?thesis by blast
qed

text \<open>
  Claim C3 as stated asks for the first offending DOF in index order. At \<open>[11, -1]\<close> with
  limits 0 and 10 the first joint is above its upper limit and the second below its lower
  limit: the lower limits are looked at first, and the error names the second joint.
\<close>

theorem first_offending_dof_counterexample:
  "fn_status_callback two_dof_scene 0 [11, - 1] (initial_state [0, 0]) =
     (Some (JointLimitError 5 (- 1) 0 ''position''), (initial_state [0, 0])\<lparr>calls := 1\<rparr>)
   \<and> q_limit_max two_dof_scene ! 0 < [11, - 1 :: real] ! 0"
  by code_simp

section \<open>Properties of the integration\<close>

subsection \<open>What one run of the monitor writes\<close>

lemma monitor_signalled:
  assumes "signalled env q s = Some status"
  shows "fn_status_callback env t q s =
    ((if DoesTerminate status then Some TerminationError else None),
     (if DoesCache status then s\<lparr>calls := Suc (calls s), robot_q := q, t_cache := Some t\<rparr>
      else s\<lparr>calls := Suc (calls s), robot_q := q\<rparr>))"
  using assms
  by (auto simp: signalled_def passes_checks_def fn_status_callback_def Let_def
      split: if_splits sum.splits option.splits)

lemma monitor_not_signalled:
  assumes "signalled env q s = None"
  shows "t_cache (snd (fn_status_callback env t q s)) = t_cache s"
  using assms
  by (auto simp: signalled_def passes_checks_def fn_status_callback_def Let_def
      split: if_splits sum.splits option.splits)

lemma monitor_t_cache:
  "t_cache (snd (fn_status_callback env t q s)) =
     (if signals_cache env (t, q, s) then Some t else t_cache s)"
proof (cases "signalled env q s")
  case None
  then show ?thesis by (simp add: monitor_not_signalled signals_cache_def)
next
  case (Some status)
  then show ?thesis by (simp add: monitor_signalled [OF Some] signals_cache_def)
qed

lemma monitor_path: "path (snd (fn_status_callback env t q s)) = path s"
  by (auto simp: fn_status_callback_def Let_def split: sum.splits option.splits)

lemma monitor_exception: "exception (snd (fn_status_callback env t q s)) = exception s"
  by (auto simp: fn_status_callback_def Let_def split: sum.splits option.splits)

lemma run_checks_path: "path (snd (run_checks env cs s)) = path s"
proof (induction cs arbitrary: s)
  case Nil
  then show ?case by simp
next
  case (Cons c cs)
  obtain t_c q_c where c: "c = (t_c, q_c)" by (cases c)
  obtain r s' where m: "fn_status_callback env t_c q_c s = (r, s')"
    by (cases "fn_status_callback env t_c q_c s")
  have "path s' = path s" using monitor_path [of env t_c q_c s] m by simp
  then show ?case using Cons.IH [of "s'\<lparr>t_check := t_c\<rparr>"] c m
    by (cases r) simp_all
qed

lemma run_checks_exception: "exception (snd (run_checks env cs s)) = exception s"
proof (induction cs arbitrary: s)
  case Nil
  then show ?case by simp
next
  case (Cons c cs)
  obtain t_c q_c where c: "c = (t_c, q_c)" by (cases c)
  obtain r s' where m: "fn_status_callback env t_c q_c s = (r, s')"
    by (cases "fn_status_callback env t_c q_c s")
  have "exception s' = exception s" using monitor_exception [of env t_c q_c s] m by simp
  then show ?case using Cons.IH [of "s'\<lparr>t_check := t_c\<rparr>"] c m
    by (cases r) simp_all
qed

lemma monitor_runs_fault:
  "(t, q, s') \<in> set (monitor_runs env cs s) \<Longrightarrow> fst (fn_status_callback env t q s') = Some e \<Longrightarrow>
     run_checks env cs s = fn_status_callback env t q s'
     \<and> last (monitor_runs env cs s) = (t, q, s')"
proof (induction cs arbitrary: s)
  case Nil
  then show ?case by simp
next
  case (Cons c cs)
  obtain t_c q_c where c: "c = (t_c, q_c)" by (cases c)
  obtain r s1 where m: "fn_status_callback env t_c q_c s = (r, s1)"
    by (cases "fn_status_callback env t_c q_c s")
  show ?case
  proof (cases r)
    case None
    with Cons.prems c m have "(t, q, s') \<in> set (monitor_runs env cs (s1\<lparr>t_check := t_c\<rparr>))"
      by auto
    from Cons.IH [OF this Cons.prems(2)] this show ?thesis
      using c m None by auto
  next
    case (Some e')
    with Cons.prems c m have "(t, q, s') = (t_c, q_c, s)" by simp
    then show ?thesis using c m Some by simp
  qed
qed

lemma monitor_runs_cache:
  "i < length (monitor_runs env cs s) \<Longrightarrow>
     (t_cache (snd (snd (monitor_runs env cs s ! i))) = None) =
     (t_cache s = None \<and> \<not> list_ex (signals_cache env) (take i (monitor_runs env cs s)))"
proof (induction cs arbitrary: s i)
  case Nil
  then show ?case by simp
next
  case (Cons c cs)
  obtain t_c q_c where c: "c = (t_c, q_c)" by (cases c)
  obtain r s1 where m: "fn_status_callback env t_c q_c s = (r, s1)"
    by (cases "fn_status_callback env t_c q_c s")
  show ?case
  proof (cases i)
    case 0
    then show ?thesis using c by simp
  next
    case (Suc j)
    with Cons.prems c m have r: "r = None"
      by (cases r) auto
    with Cons.prems c m Suc have j: "j < length (monitor_runs env cs (s1\<lparr>t_check := t_c\<rparr>))"
      by simp
    have "t_cache s1 = (if signals_cache env (t_c, q_c, s) then Some t_c else t_cache s)"
      using monitor_t_cache [of env t_c q_c s] m by simp
    then show ?thesis
      using Cons.IH [OF j] c m r Suc by auto
  qed
qed

lemma run_checks_cache:
  "(t_cache (snd (run_checks env cs s)) = None) =
     (t_cache s = None \<and> \<not> list_ex (signals_cache env) (monitor_runs env cs s))"
proof (induction cs arbitrary: s)
  case Nil
  then show ?case by simp
next
  case (Cons c cs)
  obtain t_c q_c where c: "c = (t_c, q_c)" by (cases c)
  obtain r s1 where m: "fn_status_callback env t_c q_c s = (r, s1)"
    by (cases "fn_status_callback env t_c q_c s")
  have s1: "t_cache s1 = (if signals_cache env (t_c, q_c, s) then Some t_c else t_cache s)"
    using monitor_t_cache [of env t_c q_c s] m by simp
  show ?case
  proof (cases r)
    case None
    then show ?thesis
      using Cons.IH [of "s1\<lparr>t_check := t_c\<rparr>"] c m s1 by auto
  next
    case (Some e)
    then show ?thesis using c m s1 by auto
  qed
qed

subsection \<open>What one solver callback writes\<close>

lemma fn_callback_path:
  "path (snd (fn_callback env t q s)) = path s @ [(t - GetDuration (path s), q)]"
  using run_checks_path [of env "checks_of env t q (append_waypoint t q s)" "append_waypoint t q s"]
  by (auto simp: fn_callback_def Let_def append_waypoint_def split: prod.splits option.splits)

lemma fn_callback_cache:
  "(t_cache (snd (fn_callback env t q s)) = None) =
     (t_cache s = None \<and> \<not> list_ex (signals_cache env) (callback_runs env t q s))"
  using run_checks_cache [of env "checks_of env t q (append_waypoint t q s)" "append_waypoint t q s"]
  by (auto simp: fn_callback_def callback_runs_def Let_def append_waypoint_def
      split: prod.splits option.splits)

lemma fn_callback_continues:
  "fst (fn_callback env t q s) = 0 \<Longrightarrow> exception (snd (fn_callback env t q s)) = exception s"
  using run_checks_exception [of env "checks_of env t q (append_waypoint t q s)" "append_waypoint t q s"]
  by (auto simp: fn_callback_def Let_def append_waypoint_def split: prod.splits option.splits)

lemma fn_callback_fault:
  assumes "(tc, qc, s') \<in> set (callback_runs env t q s)"
    and "fn_status_callback env tc qc s' = (Some e, s'')"
  shows "fn_callback env t q s = (- 1, s''\<lparr>exception := Some e\<rparr>)
     \<and> last (callback_runs env t q s) = (tc, qc, s')"
  using monitor_runs_fault [of tc qc s' env "checks_of env t q (append_waypoint t q s)"
      "append_waypoint t q s" e] assms
  by (simp add: fn_callback_def callback_runs_def Let_def)

lemma callback_runs_cache:
  "i < length (callback_runs env t q s) \<Longrightarrow>
     (t_cache (snd (snd (callback_runs env t q s ! i))) = None) =
     (t_cache s = None \<and> \<not> list_ex (signals_cache env) (take i (callback_runs env t q s)))"
  using monitor_runs_cache [of i env "checks_of env t q (append_waypoint t q s)"
      "append_waypoint t q s"]
  by (simp add: callback_runs_def Let_def append_waypoint_def)

subsection \<open>The whole integration\<close>

lemma integrate_path_nonempty: "path s \<noteq> [] \<Longrightarrow> path (integrate env steps s) \<noteq> []"
proof (induction steps arbitrary: s)
  case Nil
  then show ?case by simp
next
  case (Cons c steps)
  obtain t q where c: "c = (t, q)" by (cases c)
  obtain rc s' where f: "fn_callback env t q s = (rc, s')" by (cases "fn_callback env t q s")
  have "path s' \<noteq> []" using fn_callback_path [of env t q s] f by simp
  then show ?case using Cons.IH [of s'] c f by simp
qed

lemma integrate_first_path: "path (integrate env ((t, q) # steps) s) \<noteq> []"
proof -
  obtain rc s' where f: "fn_callback env t q s = (rc, s')" by (cases "fn_callback env t q s")
  have "path s' \<noteq> []" using fn_callback_path [of env t q s] f by simp
  then show ?thesis using integrate_path_nonempty [of s' env steps] f by simp
qed

lemma integrate_cache:
  "(t_cache (integrate env steps s) = None) =
     (t_cache s = None \<and> \<not> list_ex (signals_cache env) (integrate_runs env steps s))"
proof (induction steps arbitrary: s)
  case Nil
  then show ?case by simp
next
  case (Cons c steps)
  obtain t q where c: "c = (t, q)" by (cases c)
  obtain rc s' where f: "fn_callback env t q s = (rc, s')" by (cases "fn_callback env t q s")
  have s': "(t_cache s' = None) =
      (t_cache s = None \<and> \<not> list_ex (signals_cache env) (callback_runs env t q s))"
    using fn_callback_cache [of env t q s] f by simp
  show ?case using Cons.IH [of s'] c f s' by auto
qed

lemma integrate_fault:
  "(tc, qc, s') \<in> set (integrate_runs env steps s) \<Longrightarrow>
   fn_status_callback env tc qc s' = (Some e, s'') \<Longrightarrow>
     integrate env steps s = s''\<lparr>exception := Some e\<rparr>
     \<and> last (integrate_runs env steps s) = (tc, qc, s')"
proof (induction steps arbitrary: s)
  case Nil
  then show ?case by simp
next
  case (Cons c steps)
  obtain t q where c: "c = (t, q)" by (cases c)
  obtain rc s1 where f: "fn_callback env t q s = (rc, s1)" by (cases "fn_callback env t q s")
  show ?case
  proof (cases "(tc, qc, s') \<in> set (callback_runs env t q s)")
    case True
    from fn_callback_fault [OF True Cons.prems(2)] show ?thesis
      using c f by simp
  next
    case False
    with Cons.prems(1) c f have rc: "rc = 0"
      and mem: "(tc, qc, s') \<in> set (integrate_runs env steps s1)"
      by (auto split: if_splits)
    from mem have ne: "integrate_runs env steps s1 \<noteq> []" by auto
    from Cons.IH [OF mem Cons.prems(2)] ne show ?thesis
      using c f rc by simp
  qed
qed

lemma integrate_runs_cache:
  "i < length (integrate_runs env steps s) \<Longrightarrow>
     (t_cache (snd (snd (integrate_runs env steps s ! i))) = None) =
     (t_cache s = None \<and> \<not> list_ex (signals_cache env) (take i (integrate_runs env steps s)))"
proof (induction steps arbitrary: s i)
  case Nil
  then show ?case by simp
next
  case (Cons c steps)
  obtain t q where c: "c = (t, q)" by (cases c)
  obtain rc s1 where f: "fn_callback env t q s = (rc, s1)" by (cases "fn_callback env t q s")
  let ?A = "callback_runs env t q s"
  show ?case
  proof (cases "i < length ?A")
    case True
    from callback_runs_cache [OF True] True show ?thesis
      using c f by (simp add: nth_append)
  next
    case False
    with Cons.prems c f have rc: "rc = 0"
      and j: "i - length ?A < length (integrate_runs env steps s1)"
      by (auto split: if_splits)
    have s1: "(t_cache s1 = None) =
        (t_cache s = None \<and> \<not> list_ex (signals_cache env) ?A)"
      using fn_callback_cache [of env t q s] f by simp
    from Cons.IH [OF j] False show ?thesis
      using c f rc s1 by (auto simp: nth_append)
  qed
qed

subsection \<open>The output exists when the raw path is not empty\<close>

lemma Sample_nonempty: "ws \<noteq> [] \<Longrightarrow> \<exists>w. Sample ws t = Some w"
  by (cases ws) (auto simp: Sample_def)

lemma build_output_nonempty: "ws \<noteq> [] \<Longrightarrow> \<exists>traj. build_output ws t = Some traj"
  using Sample_nonempty [of ws t] by (auto simp: build_output_def Let_def)

section \<open>Properties of a call of FollowVectorField\<close>

subsection \<open>The end of a call\<close>

lemma FollowVectorField_end: "FollowVectorField env q0 accepted = finish (call_end env q0 accepted)"
  by (simp add: FollowVectorField_def call_end_def)

lemma call_end_path: "path (call_end env q0 accepted) \<noteq> []"
  by (simp only: call_end_def integrate_first_path not_False_eq_True)

lemma call_end_cache:
  "(t_cache (call_end env q0 accepted) = None) =
     (\<not> list_ex (signals_cache env) (call_runs env q0 accepted))"
  using integrate_cache [of env "(0, q0) # accepted" "initial_state q0"]
  by (simp add: call_end_def call_runs_def initial_state_def)

lemma finish_cached:
  assumes "t_cache s = Some tc" and "path s \<noteq> []"
  shows "\<exists>traj. build_output (path s) tc = Some traj \<and> finish s = Inr (traj, logged_of s)"
  using build_output_nonempty [OF assms(2), of tc] assms(1)
  by (auto simp: finish_def logged_of_def)

lemma finish_uncached: "t_cache s = None \<Longrightarrow> finish s = Inl (Some (raised_of s))"
  by (simp add: finish_def raised_of_def)

lemma call_runs_cache:
  assumes "call_runs env q0 accepted = pre @ (t, q, s) # post"
  shows "(t_cache s = None) = (\<not> list_ex (signals_cache env) pre)"
proof -
  let ?runs = "integrate_runs env ((0, q0) # accepted) (initial_state q0)"
  have eq: "?runs = pre @ (t, q, s) # post"
    using assms by (simp only: call_runs_def)
  have len: "length pre < length ?runs" unfolding eq by simp
  have nth: "?runs ! length pre = (t, q, s)" unfolding eq by simp
  have tk: "take (length pre) ?runs = pre" unfolding eq by simp
  have init: "t_cache (initial_state q0) = None" by (simp add: initial_state_def)
  from integrate_runs_cache [OF len, unfolded nth tk] init show ?thesis by simp
qed

subsection \<open>The cache time is written before the terminate bit is acted on\<close>

text \<open>
  Claim C5. In every run of the monitor at a sample of time \<open>t\<close> in which the predicate
  returns a caching status, the monitor leaves \<open>t\<close> as the cache time, and raises
  \<^verbatim>\<open>TerminationError\<close> exactly when the status also terminates. With
  \<^verbatim>\<open>CACHE_AND_TERMINATE\<close> that run is the last run of the monitor in the call, the
  integration ends with the cache time \<open>t\<close> and the termination error pending, and the
  call returns a trajectory.
\<close>

theorem cache_recorded_before_stop:
  assumes "(t, q, s) \<in> set (call_runs env q0 accepted)"
    and "signalled env q s = Some status"
    and "DoesCache status"
  shows "t_cache (snd (fn_status_callback env t q s)) = Some t
     \<and> fst (fn_status_callback env t q s) =
         (if DoesTerminate status then Some TerminationError else None)
     \<and> (DoesTerminate status \<longrightarrow>
          last (call_runs env q0 accepted) = (t, q, s)
          \<and> t_cache (call_end env q0 accepted) = Some t
          \<and> exception (call_end env q0 accepted) = Some TerminationError
          \<and> (\<exists>traj. FollowVectorField env q0 accepted = Inr (traj, [TerminationError])))"
proof -
  have m: "fn_status_callback env t q s =
      ((if DoesTerminate status then Some TerminationError else None),
       s\<lparr>calls := Suc (calls s), robot_q := q, t_cache := Some t\<rparr>)"
    using monitor_signalled [OF assms(2), of t] assms(3) by simp
  have stop: "last (call_runs env q0 accepted) = (t, q, s)
          \<and> t_cache (call_end env q0 accepted) = Some t
          \<and> exception (call_end env q0 accepted) = Some TerminationError
          \<and> (\<exists>traj. FollowVectorField env q0 accepted = Inr (traj, [TerminationError]))"
    if stops: "DoesTerminate status"
  proof -
    have mem: "(t, q, s) \<in> set (integrate_runs env ((0, q0) # accepted) (initial_state q0))"
      using assms(1) by (simp only: call_runs_def)
    have m': "fn_status_callback env t q s =
        (Some TerminationError, s\<lparr>calls := Suc (calls s), robot_q := q, t_cache := Some t\<rparr>)"
      using m stops by simp
    from integrate_fault [OF mem m']
    have e: "call_end env q0 accepted =
        s\<lparr>calls := Suc (calls s), robot_q := q, t_cache := Some t,
          exception := Some TerminationError\<rparr>"
      and l: "last (call_runs env q0 accepted) = (t, q, s)"
      by (simp_all only: call_end_def call_runs_def)
    have tc: "t_cache (call_end env q0 accepted) = Some t"
      and ex: "exception (call_end env q0 accepted) = Some TerminationError"
      by (simp_all add: e)
    from finish_cached [OF tc call_end_path] ex
    have "\<exists>traj. FollowVectorField env q0 accepted = Inr (traj, [TerminationError])"
      by (auto simp: FollowVectorField_end logged_of_def)
    with l tc ex show ?thesis by blast
  qed
  from m stop show ?thesis by simp
qed

text \<open>
  The theorem on a joint that moves from 0 to 1 and on to 2, with a predicate that
  returns \<^verbatim>\<open>CACHE_AND_TERMINATE\<close> once the joint has reached 1.
\<close>

theorem cache_recorded_before_stop_witness:
  "(1, [1], \<lparr>exception = None, t_cache = None, t_check = 0,
             path = [(0, [0]), (1, [1])], robot_q = [0], calls = 1\<rparr>)
     \<in> set (call_runs (one_dof_scene
         (\<lambda>k q. Inr (if 1 \<le> q ! 0 then CACHE_AND_TERMINATE else CONTINUE))
         no_obstacle (clock_jump 100)) [0] [(1, [1]), (2, [2])])
   \<and> signalled (one_dof_scene
         (\<lambda>k q. Inr (if 1 \<le> q ! 0 then CACHE_AND_TERMINATE else CONTINUE))
         no_obstacle (clock_jump 100)) [1]
        \<lparr>exception = None, t_cache = None, t_check = 0,
         path = [(0, [0]), (1, [1])], robot_q = [0], calls = 1\<rparr> = Some CACHE_AND_TERMINATE
   \<and> DoesCache CACHE_AND_TERMINATE
   \<and> DoesTerminate CACHE_AND_TERMINATE
   \<and> t_cache (call_end (one_dof_scene
         (\<lambda>k q. Inr (if 1 \<le> q ! 0 then CACHE_AND_TERMINATE else CONTINUE))
         no_obstacle (clock_jump 100)) [0] [(1, [1]), (2, [2])]) = Some 1
   \<and> (\<exists>traj. FollowVectorField (one_dof_scene
         (\<lambda>k q. Inr (if 1 \<le> q ! 0 then CACHE_AND_TERMINATE else CONTINUE))
         no_obstacle (clock_jump 100)) [0] [(1, [1]), (2, [2])] = Inr (traj, [TerminationError]))"
proof -
  let ?e = "one_dof_scene (\<lambda>k q. Inr (if 1 \<le> q ! 0 then CACHE_AND_TERMINATE else CONTINUE))
         no_obstacle (clock_jump 100)"
  have a: "(1, [1], \<lparr>exception = None, t_cache = None, t_check = 0,
         path = [(0, [0]), (1, [1])], robot_q = [0], calls = 1\<rparr>)
       \<in> set (call_runs ?e [0] [(1, [1]), (2, [2])])"
    by code_simp
  have b: "signalled ?e [1] \<lparr>exception = None, t_cache = None, t_check = 0,
         path = [(0, [0]), (1, [1])], robot_q = [0], calls = 1\<rparr> = Some CACHE_AND_TERMINATE"
    by code_simp
  have c: "DoesCache CACHE_AND_TERMINATE" by (simp add: DoesCache_def)
  have d: "DoesTerminate CACHE_AND_TERMINATE" by (simp add: DoesTerminate_def)
  from cache_recorded_before_stop [OF a b c] a b c d show ?thesis by blast
qed

subsection \<open>Termination without a cached prefix is an error\<close>

text \<open>
  Claim C10. If the predicate returns \<^verbatim>\<open>TERMINATE\<close> in a run of the monitor and has not
  returned a caching status in any earlier run of the call, the call raises the
  \<^verbatim>\<open>TerminationError\<close> itself, whose message is "Terminated by callback.", and that run
  is the last of the call.
\<close>

theorem terminate_without_cache_raises:
  assumes "call_runs env q0 accepted = pre @ (t, q, s) # post"
    and "\<not> list_ex (signals_cache env) pre"
    and "signalled env q s = Some TERMINATE"
  shows "FollowVectorField env q0 accepted = Inl (Some TerminationError)
     \<and> message TerminationError = Some ''Terminated by callback.''
     \<and> last (call_runs env q0 accepted) = (t, q, s)"
proof -
  have unset: "t_cache s = None"
    using call_runs_cache [OF assms(1)] assms(2) by simp
  have m: "fn_status_callback env t q s =
      (Some TerminationError, s\<lparr>calls := Suc (calls s), robot_q := q\<rparr>)"
    using monitor_signalled [OF assms(3), of t] by (simp add: DoesTerminate_def DoesCache_def)
  have mem: "(t, q, s) \<in> set (integrate_runs env ((0, q0) # accepted) (initial_state q0))"
    using assms(1) by (simp add: call_runs_def)
  from integrate_fault [OF mem m]
  have e: "call_end env q0 accepted =
      s\<lparr>calls := Suc (calls s), robot_q := q, exception := Some TerminationError\<rparr>"
    and l: "last (call_runs env q0 accepted) = (t, q, s)"
    by (simp_all add: call_end_def call_runs_def)
  have "finish (call_end env q0 accepted) = Inl (Some TerminationError)"
    using unset by (simp add: e finish_def)
  with l show ?thesis by (simp add: FollowVectorField_end)
qed

text \<open>
  The theorem with the predicate of \<^verbatim>\<open>PlanToEndEffectorPose\<close>: the pose error is the
  distance of the joint from 1, the tolerance 1/2. The second run of the monitor gets
  \<^verbatim>\<open>TERMINATE\<close>, and the call raises.
\<close>

theorem terminate_without_cache_raises_witness:
  "call_runs (one_dof_scene (\<lambda>k q. Inr (CloseEnough (\<lambda>q. 1 - q ! 0) (1 / 2) q)) no_obstacle
        (clock_jump 100)) [0] [(1, [1]), (2, [2])]
     = [(0, [0], (initial_state [0])\<lparr>path := [(0, [0])]\<rparr>)]
       @ (1, [1], \<lparr>exception = None, t_cache = None, t_check = 0,
                   path = [(0, [0]), (1, [1])], robot_q = [0], calls = 1\<rparr>) # []
   \<and> \<not> list_ex (signals_cache (one_dof_scene (\<lambda>k q. Inr (CloseEnough (\<lambda>q. 1 - q ! 0) (1 / 2) q))
          no_obstacle (clock_jump 100)))
        [(0, [0], (initial_state [0])\<lparr>path := [(0, [0])]\<rparr>)]
   \<and> signalled (one_dof_scene (\<lambda>k q. Inr (CloseEnough (\<lambda>q. 1 - q ! 0) (1 / 2) q)) no_obstacle
        (clock_jump 100)) [1]
        \<lparr>exception = None, t_cache = None, t_check = 0,
         path = [(0, [0]), (1, [1])], robot_q = [0], calls = 1\<rparr> = Some TERMINATE
   \<and> FollowVectorField (one_dof_scene (\<lambda>k q. Inr (CloseEnough (\<lambda>q. 1 - q ! 0) (1 / 2) q))
        no_obstacle (clock_jump 100)) [0] [(1, [1]), (2, [2])]
        = Inl (Some TerminationError)"
proof -
  let ?e = "one_dof_scene (\<lambda>k q. Inr (CloseEnough (\<lambda>q. 1 - q ! 0) (1 / 2) q)) no_obstacle
        (clock_jump 100)"
  have a: "call_runs ?e [0] [(1, [1]), (2, [2])]
     = [(0, [0], (initial_state [0])\<lparr>path := [(0, [0])]\<rparr>)]
       @ (1, [1], \<lparr>exception = None, t_cache = None, t_check = 0,
                   path = [(0, [0]), (1, [1])], robot_q = [0], calls = 1\<rparr>) # []"
    by code_simp
  have b: "\<not> list_ex (signals_cache ?e) [(0, [0], (initial_state [0])\<lparr>path := [(0, [0])]\<rparr>)]"
    by code_simp
  have c: "signalled ?e [1] \<lparr>exception = None, t_cache = None, t_check = 0,
         path = [(0, [0]), (1, [1])], robot_q = [0], calls = 1\<rparr> = Some TERMINATE"
    by code_simp
  from terminate_without_cache_raises [OF a b c] a b c show ?thesis by blast
qed

section \<open>Properties of the solver callback\<close>

subsection \<open>The checks of one callback\<close>








subsection \<open>Samples within the resolution\<close>





subsection \<open>The step is appended, then checked at the helper's samples\<close>




subsection \<open>The cache pointer over a call\<close>

text \<open>
  Claim C6 at a concrete call. The joint moves from 0 to 1/2, 1 and 2; the predicate
  caches from 1/2 on; the helper returns the waypoints after the first; the wall clock
  passes its limit at the sixth run of the monitor. Every callback checks the raw path
  from its start again (the source notes that the checks should start at \<^verbatim>\<open>t_check\<close>),
  so the samples of the third and fourth callback start again at time 1/2: the cache
  pointer goes from 1 back to 1/2, the time limit stops the call there, and the
  trajectory returned ends at 1/2 although the call had cached up to time 1.
\<close>

theorem cache_pointer_decreases:
  "cache_pointer_values (one_dof_scene (cache_from (1 / 2)) no_obstacle (clock_jump 5))
     (call_runs (one_dof_scene (cache_from (1 / 2)) no_obstacle (clock_jump 5)) [0]
        [(1 / 2, [1 / 2]), (1, [1]), (2, [2])])
     = [None, Some (1 / 2), Some (1 / 2), Some 1, Some (1 / 2), Some (1 / 2)]
   \<and> map sample_of
       (call_runs (one_dof_scene (cache_from (1 / 2)) no_obstacle (clock_jump 5)) [0]
          [(1 / 2, [1 / 2]), (1, [1]), (2, [2])])
     = [(0, [0]), (1 / 2, [1 / 2]), (1 / 2, [1 / 2]), (1, [1]), (1 / 2, [1 / 2]), (1, [1])]
   \<and> t_cache (call_end (one_dof_scene (cache_from (1 / 2)) no_obstacle (clock_jump 5)) [0]
        [(1 / 2, [1 / 2]), (1, [1])]) = Some 1
   \<and> t_cache (call_end (one_dof_scene (cache_from (1 / 2)) no_obstacle (clock_jump 5)) [0]
        [(1 / 2, [1 / 2]), (1, [1]), (2, [2])]) = Some (1 / 2)
   \<and> map_option (map joint_values \<circ> waypoints)
        (returned (FollowVectorField
           (one_dof_scene (cache_from (1 / 2)) no_obstacle (clock_jump 5)) [0]
           [(1 / 2, [1 / 2]), (1, [1]), (2, [2])]))
     = Some [[0], [1 / 2]]"
  by code_simp

section \<open>Properties of the returned trajectory\<close>

subsection \<open>The truncation index, the copied waypoints and the raw path's times\<close>

lemma GetWaypoints_take: "GetWaypoints ws 0 n = take n ws"
  by (simp add: GetWaypoints_def)

lemma first_index_le: "first_index_from acc t ws \<le> length ws"
  by (induction ws arbitrary: acc) auto

lemma first_index_before:
  "i < first_index_from acc t ws \<Longrightarrow> times_from acc ws ! i < t"
proof (induction ws arbitrary: acc i)
  case Nil
  then show ?case by simp
next
  case (Cons w ws)
  obtain dt q where w: "w = (dt, q)" by (cases w)
  show ?case
  proof (cases "acc + dt < t")
    case True
    then show ?thesis using Cons w by (cases i) auto
  next
    case False
    then show ?thesis using Cons.prems w by simp
  qed
qed

lemma length_times_from: "length (times_from acc ws) = length ws"
  by (induction ws arbitrary: acc) auto

lemma first_index_exact:
  "sorted_wrt (<) (times_from acc ws) \<Longrightarrow> i < length ws \<Longrightarrow>
     (i < first_index_from acc t ws) = (times_from acc ws ! i < t)"
proof (induction ws arbitrary: acc i)
  case Nil
  then show ?case by simp
next
  case (Cons w ws)
  obtain dt q where w: "w = (dt, q)" by (cases w)
  from Cons.prems(1) w have tail: "sorted_wrt (<) (times_from (acc + dt) ws)"
    and above: "\<forall>x \<in> set (times_from (acc + dt) ws). acc + dt < x"
    by simp_all
  show ?case
  proof (cases "acc + dt < t")
    case True
    show ?thesis
    proof (cases i)
      case 0
      then show ?thesis using True w by simp
    next
      case (Suc j)
      with Cons.prems(2) have "j < length ws" by simp
      from Cons.IH [OF tail this] show ?thesis using True w Suc by simp
    qed
  next
    case False
    show ?thesis
    proof (cases i)
      case 0
      then show ?thesis using False w by simp
    next
      case (Suc j)
      with Cons.prems(2) have "j < length ws" by simp
      then have "times_from (acc + dt) ws ! j \<in> set (times_from (acc + dt) ws)"
        by (simp add: length_times_from)
      with above have "acc + dt < times_from (acc + dt) ws ! j" by blast
      then show ?thesis using False w Suc by simp
    qed
  qed
qed

lemma build_output_waypoints:
  assumes "build_output raw tc = Some traj"
  shows "\<exists>w. Sample raw tc = Some w
     \<and> waypoints traj =
         map to_output_cspec (take (GetFirstWaypointIndexAfterTime raw tc) raw) @ [to_output_cspec w]
     \<and> tags traj = [CONSTRAINED \<mapsto> StrTag ''true'', SMOOTH \<mapsto> StrTag ''true'']"
  using assms
  by (auto simp: build_output_def Let_def GetWaypoints_take SetTrajectoryTags_def
      split: option.splits)

lemma deltatime_to_output: "deltatime (to_output_cspec w) = None"
  and joint_values_to_output: "joint_values (to_output_cspec w) = snd w"
  by (simp_all add: to_output_cspec_def)

lemma times_from_append:
  "times_from acc (ws @ [(d, q)]) = times_from acc ws @ [acc + sum_list (map fst ws) + d]"
  by (induction ws arbitrary: acc) (auto simp: algebra_simps)

lemma fn_callback_times:
  "waypoint_times (path (snd (fn_callback env t q s))) = waypoint_times (path s) @ [t]"
  by (simp add: fn_callback_path waypoint_times_def times_from_append GetDuration_def)

lemma integrate_times:
  "\<exists>n. waypoint_times (path (integrate env steps s)) =
     waypoint_times (path s) @ map fst (take n steps)"
proof (induction steps arbitrary: s)
  case Nil
  then show ?case by simp
next
  case (Cons c steps)
  obtain t q where c: "c = (t, q)" by (cases c)
  obtain rc s1 where f: "fn_callback env t q s = (rc, s1)" by (cases "fn_callback env t q s")
  have s1: "waypoint_times (path s1) = waypoint_times (path s) @ [t]"
    using fn_callback_times [of env t q s] f by simp
  show ?case
  proof (cases "rc = 0")
    case True
    from Cons.IH [of s1] obtain n where
      "waypoint_times (path (integrate env steps s1)) =
         waypoint_times (path s1) @ map fst (take n steps)" by blast
    then have "waypoint_times (path (integrate env (c # steps) s)) =
        waypoint_times (path s) @ map fst (take (Suc n) (c # steps))"
      using c f True s1 by simp
    then show ?thesis by blast
  next
    case False
    then have "waypoint_times (path (integrate env (c # steps) s)) =
        waypoint_times (path s) @ map fst (take 1 (c # steps))"
      using c f s1 by simp
    then show ?thesis by blast
  qed
qed

lemma call_end_times_sorted:
  assumes "sorted_wrt (<) (0 # map fst accepted)"
  shows "sorted_wrt (<) (waypoint_times (path (call_end env q0 accepted)))"
proof -
  from integrate_times [of env "(0, q0) # accepted" "initial_state q0"] obtain n where
    n: "waypoint_times (path (call_end env q0 accepted)) =
          map fst (take n ((0, q0) # accepted))"
    by (auto simp: call_end_def initial_state_def waypoint_times_def)
  have "map fst (take n ((0, q0) # accepted)) = take n (0 # map fst accepted)"
    by (cases n) (simp_all add: take_map)
  with n assms show ?thesis by (simp only: sorted_wrt_take)
qed

lemma FollowVectorField_tags:
  assumes "FollowVectorField env q0 accepted = Inr (traj, logged)"
  shows "tags traj = [CONSTRAINED \<mapsto> StrTag ''true'', SMOOTH \<mapsto> StrTag ''true'']"
proof -
  from assms obtain tc where "build_output (path (call_end env q0 accepted)) tc = Some traj"
    by (auto simp: FollowVectorField_end finish_def split: option.splits)
  from build_output_waypoints [OF this] show ?thesis by blast
qed

lemma FollowVectorField_nonempty:
  assumes "FollowVectorField env q0 accepted = Inr (traj, logged)"
  shows "waypoints traj \<noteq> []"
proof -
  from assms obtain tc where "build_output (path (call_end env q0 accepted)) tc = Some traj"
    by (auto simp: FollowVectorField_end finish_def split: option.splits)
  from build_output_waypoints [OF this] show ?thesis by auto
qed

subsection \<open>The cache time at the end of a call\<close>

lemma cache_after_step:
  "cache_after env c (r # runs) =
     cache_after env (if signals_cache env r then Some (fst r) else c) runs"
  by (simp add: cache_after_def)

lemma cache_after_append:
  "cache_after env c (xs @ ys) = cache_after env (cache_after env c xs) ys"
  by (simp add: cache_after_def)

lemma cache_after_none:
  "\<not> list_ex (signals_cache env) runs \<Longrightarrow> cache_after env c runs = c"
  by (induction runs arbitrary: c) (auto simp: cache_after_step cache_after_def)

lemma cache_after_last:
  assumes "signals_cache env r" and "\<not> list_ex (signals_cache env) post"
  shows "cache_after env c (pre @ r # post) = Some (fst r)"
  using assms by (simp add: cache_after_append cache_after_step cache_after_none)

lemma run_checks_cache_after:
  "t_cache (snd (run_checks env cs s)) = cache_after env (t_cache s) (monitor_runs env cs s)"
proof (induction cs arbitrary: s)
  case Nil
  then show ?case by (simp add: cache_after_def)
next
  case (Cons c cs)
  obtain t_c q_c where c: "c = (t_c, q_c)" by (cases c)
  obtain r s1 where m: "fn_status_callback env t_c q_c s = (r, s1)"
    by (cases "fn_status_callback env t_c q_c s")
  have s1: "t_cache s1 = (if signals_cache env (t_c, q_c, s) then Some t_c else t_cache s)"
    using monitor_t_cache [of env t_c q_c s] m by simp
  show ?case
  proof (cases r)
    case None
    then show ?thesis
      using Cons.IH [of "s1\<lparr>t_check := t_c\<rparr>"] c m s1 by (simp add: cache_after_step)
  next
    case (Some e)
    then show ?thesis using c m s1 by (simp add: cache_after_step cache_after_def)
  qed
qed

lemma fn_callback_cache_after:
  "t_cache (snd (fn_callback env t q s)) = cache_after env (t_cache s) (callback_runs env t q s)"
  using run_checks_cache_after [of env "checks_of env t q (append_waypoint t q s)"
      "append_waypoint t q s"]
  by (auto simp: fn_callback_def callback_runs_def Let_def append_waypoint_def
      split: prod.splits option.splits)

lemma integrate_cache_after:
  "t_cache (integrate env steps s) = cache_after env (t_cache s) (integrate_runs env steps s)"
proof (induction steps arbitrary: s)
  case Nil
  then show ?case by (simp add: cache_after_def)
next
  case (Cons c steps)
  obtain t q where c: "c = (t, q)" by (cases c)
  obtain rc s1 where f: "fn_callback env t q s = (rc, s1)" by (cases "fn_callback env t q s")
  have s1: "t_cache s1 = cache_after env (t_cache s) (callback_runs env t q s)"
    using fn_callback_cache_after [of env t q s] f by simp
  show ?case using Cons.IH [of s1] c f s1
    by (simp add: cache_after_append) (simp add: cache_after_def)
qed

lemma call_end_cache_after:
  "t_cache (call_end env q0 accepted) = cache_after env None (call_runs env q0 accepted)"
  using integrate_cache_after [of env "(0, q0) # accepted" "initial_state q0"]
  by (simp add: call_end_def call_runs_def initial_state_def)

lemma last_signal:
  assumes "list_ex (signals_cache env) runs"
  shows "\<exists>pre t q s post. runs = pre @ (t, q, s) # post \<and> signals_cache env (t, q, s)
     \<and> \<not> list_ex (signals_cache env) post"
proof -
  from assms have "\<exists>x \<in> set runs. signals_cache env x" by (simp add: list_ex_iff)
  from split_list_last_prop [OF this] obtain pre x post where
    r: "runs = pre @ x # post" and x: "signals_cache env x"
    and p: "\<forall>z \<in> set post. \<not> signals_cache env z"
    by blast
  obtain t q s where xe: "x = (t, q, s)" by (cases x)
  have 1: "runs = pre @ (t, q, s) # post" using r xe by simp
  have 2: "signals_cache env (t, q, s)" using x xe by simp
  have 3: "\<not> list_ex (signals_cache env) post" using p by (simp add: list_ex_iff)
  show ?thesis by (intro exI conjI, rule 1, rule 2, rule 3)
qed

lemma first_index_stop:
  "first_index_from acc t ws < length ws \<Longrightarrow>
     t \<le> times_from acc ws ! first_index_from acc t ws"
proof (induction ws arbitrary: acc)
  case Nil
  then show ?case by simp
next
  case (Cons w ws)
  obtain dt q where w: "w = (dt, q)" by (cases w)
  show ?case using Cons w by (cases "acc + dt < t") auto
qed

lemma build_output_eq:
  "build_output raw tc =
    (case Sample raw tc of
       None \<Rightarrow> None
     | Some w \<Rightarrow>
         Some \<lparr>waypoints =
                 map to_output_cspec (take (GetFirstWaypointIndexAfterTime raw tc) raw)
                 @ [to_output_cspec w],
               tags = [CONSTRAINED \<mapsto> StrTag ''true'', SMOOTH \<mapsto> StrTag ''true'']\<rparr>)"
  by (simp add: build_output_def Let_def GetWaypoints_take SetTrajectoryTags_def
      split: option.splits)

subsection \<open>Partial success comes before the report of a failure\<close>

text \<open>
  Claim C1. If the termination predicate returns a caching status in some run of the
  monitor during the call, the call returns a trajectory, and a pending exception is only
  handed to the logger. The trajectory is the cached prefix: with \<open>t\<close> the time of the last
  run in which the predicate returned a caching status, which is the cache time at the
  end of the integration, it holds the leading waypoints of the raw path up to the
  truncation index, converted to the output's specification, then the raw path sampled at
  \<open>t\<close>, and the two tags. Every waypoint before the truncation index has a time below \<open>t\<close>,
  and the waypoint at the index, if there is one, has not. If the predicate never returns
  a caching status before the integration stops, the call raises the pending exception,
  or the generic \<^verbatim>\<open>PlanningError\<close> when there is none, and returns nothing. The pending
  exception is the one raised by the run of the monitor that stopped the integration.
\<close>

theorem cached_prefix_or_fault:
  "(list_ex (signals_cache env) (call_runs env q0 accepted) \<longrightarrow>
      (\<exists>pre t q s post w.
         call_runs env q0 accepted = pre @ (t, q, s) # post
         \<and> signals_cache env (t, q, s)
         \<and> \<not> list_ex (signals_cache env) post
         \<and> t_cache (call_end env q0 accepted) = Some t
         \<and> Sample (path (call_end env q0 accepted)) t = Some w
         \<and> FollowVectorField env q0 accepted =
             Inr (\<lparr>waypoints =
                     map to_output_cspec
                       (take (GetFirstWaypointIndexAfterTime (path (call_end env q0 accepted)) t)
                          (path (call_end env q0 accepted)))
                     @ [to_output_cspec w],
                   tags = [CONSTRAINED \<mapsto> StrTag ''true'', SMOOTH \<mapsto> StrTag ''true'']\<rparr>,
                  logged_of (call_end env q0 accepted))
         \<and> GetFirstWaypointIndexAfterTime (path (call_end env q0 accepted)) t
             \<le> length (path (call_end env q0 accepted))
         \<and> (\<forall>i<GetFirstWaypointIndexAfterTime (path (call_end env q0 accepted)) t.
               waypoint_times (path (call_end env q0 accepted)) ! i < t)
         \<and> (GetFirstWaypointIndexAfterTime (path (call_end env q0 accepted)) t
               < length (path (call_end env q0 accepted)) \<longrightarrow>
             t \<le> waypoint_times (path (call_end env q0 accepted))
                   ! GetFirstWaypointIndexAfterTime (path (call_end env q0 accepted)) t)))
   \<and> (\<not> list_ex (signals_cache env) (call_runs env q0 accepted) \<longrightarrow>
        FollowVectorField env q0 accepted = Inl (Some (raised_of (call_end env q0 accepted))))
   \<and> (\<forall>t q s e s'. (t, q, s) \<in> set (call_runs env q0 accepted)
        \<and> fn_status_callback env t q s = (Some e, s') \<longrightarrow>
        exception (call_end env q0 accepted) = Some e)"
proof (intro conjI impI allI)
  let ?raw = "path (call_end env q0 accepted)"
  assume "list_ex (signals_cache env) (call_runs env q0 accepted)"
  from last_signal [OF this] obtain pre t q s post where
    runs: "call_runs env q0 accepted = pre @ (t, q, s) # post"
    and sig: "signals_cache env (t, q, s)"
    and post: "\<not> list_ex (signals_cache env) post"
    by blast
  have tc: "t_cache (call_end env q0 accepted) = Some t"
    using cache_after_last [OF sig post, of None pre] runs by (simp add: call_end_cache_after)
  from Sample_nonempty [OF call_end_path, of env q0 accepted t] obtain w where
    w: "Sample ?raw t = Some w" by blast
  have res: "FollowVectorField env q0 accepted =
             Inr (\<lparr>waypoints =
                     map to_output_cspec (take (GetFirstWaypointIndexAfterTime ?raw t) ?raw)
                     @ [to_output_cspec w],
                   tags = [CONSTRAINED \<mapsto> StrTag ''true'', SMOOTH \<mapsto> StrTag ''true'']\<rparr>,
                  logged_of (call_end env q0 accepted))"
    by (simp add: FollowVectorField_end finish_def tc build_output_eq w logged_of_def)
  have le: "GetFirstWaypointIndexAfterTime ?raw t \<le> length ?raw"
    by (simp add: GetFirstWaypointIndexAfterTime_def first_index_le)
  have before: "\<forall>i<GetFirstWaypointIndexAfterTime ?raw t. waypoint_times ?raw ! i < t"
    by (simp add: GetFirstWaypointIndexAfterTime_def waypoint_times_def first_index_before)
  have stop: "GetFirstWaypointIndexAfterTime ?raw t < length ?raw \<longrightarrow>
      t \<le> waypoint_times ?raw ! GetFirstWaypointIndexAfterTime ?raw t"
    by (simp add: GetFirstWaypointIndexAfterTime_def waypoint_times_def first_index_stop)
  show "\<exists>pre t q s post w.
         call_runs env q0 accepted = pre @ (t, q, s) # post
         \<and> signals_cache env (t, q, s)
         \<and> \<not> list_ex (signals_cache env) post
         \<and> t_cache (call_end env q0 accepted) = Some t
         \<and> Sample ?raw t = Some w
         \<and> FollowVectorField env q0 accepted =
             Inr (\<lparr>waypoints =
                     map to_output_cspec (take (GetFirstWaypointIndexAfterTime ?raw t) ?raw)
                     @ [to_output_cspec w],
                   tags = [CONSTRAINED \<mapsto> StrTag ''true'', SMOOTH \<mapsto> StrTag ''true'']\<rparr>,
                  logged_of (call_end env q0 accepted))
         \<and> GetFirstWaypointIndexAfterTime ?raw t \<le> length ?raw
         \<and> (\<forall>i<GetFirstWaypointIndexAfterTime ?raw t. waypoint_times ?raw ! i < t)
         \<and> (GetFirstWaypointIndexAfterTime ?raw t < length ?raw \<longrightarrow>
             t \<le> waypoint_times ?raw ! GetFirstWaypointIndexAfterTime ?raw t)"
    by (intro exI conjI, rule runs, rule sig, rule post, rule tc, rule w, rule res, rule le,
        rule before, rule stop)
next
  assume "\<not> list_ex (signals_cache env) (call_runs env q0 accepted)"
  then have "t_cache (call_end env q0 accepted) = None"
    using call_end_cache [of env q0 accepted] by simp
  then show "FollowVectorField env q0 accepted = Inl (Some (raised_of (call_end env q0 accepted)))"
    by (simp add: FollowVectorField_end finish_uncached)
next
  fix t q s e s'
  assume "(t, q, s) \<in> set (call_runs env q0 accepted)
        \<and> fn_status_callback env t q s = (Some e, s')"
  then show "exception (call_end env q0 accepted) = Some e"
    using integrate_fault [of t q s env "(0, q0) # accepted" "initial_state q0" e s']
    by (simp add: call_runs_def call_end_def)
qed

text \<open>
  Both cases on a joint that moves from 0 to 2 and hits a table at 3/2. With a predicate
  that caches from 1/2 on, the call returns the waypoints 0 and 1/2 and the sample at the
  cache time 1, and logs the collision; with a predicate that never caches it raises the
  collision error.
\<close>

theorem cached_prefix_or_fault_witness:
  "list_ex (signals_cache (one_dof_scene (cache_from (1 / 2)) (obstacle_from (3 / 2)) (clock_jump 100)))
     (call_runs (one_dof_scene (cache_from (1 / 2)) (obstacle_from (3 / 2)) (clock_jump 100))
        [0] [(1 / 2, [1 / 2]), (1, [1]), (2, [2])])
   \<and> (\<exists>traj. FollowVectorField
          (one_dof_scene (cache_from (1 / 2)) (obstacle_from (3 / 2)) (clock_jump 100))
          [0] [(1 / 2, [1 / 2]), (1, [1]), (2, [2])]
        = Inr (traj, [CollisionPlanningError ''table''])
        \<and> map joint_values (waypoints traj) = [[0], [1 / 2], [1]])
   \<and> t_cache (call_end
          (one_dof_scene (cache_from (1 / 2)) (obstacle_from (3 / 2)) (clock_jump 100))
          [0] [(1 / 2, [1 / 2]), (1, [1]), (2, [2])]) = Some 1
   \<and> \<not> list_ex (signals_cache (one_dof_scene (always CONTINUE) (obstacle_from (3 / 2)) (clock_jump 100)))
     (call_runs (one_dof_scene (always CONTINUE) (obstacle_from (3 / 2)) (clock_jump 100))
        [0] [(1 / 2, [1 / 2]), (1, [1]), (2, [2])])
   \<and> FollowVectorField
          (one_dof_scene (always CONTINUE) (obstacle_from (3 / 2)) (clock_jump 100))
          [0] [(1 / 2, [1 / 2]), (1, [1]), (2, [2])]
        = Inl (Some (CollisionPlanningError ''table''))"
proof -
  let ?a = "one_dof_scene (cache_from (1 / 2)) (obstacle_from (3 / 2)) (clock_jump 100)"
  let ?b = "one_dof_scene (always CONTINUE) (obstacle_from (3 / 2)) (clock_jump 100)"
  let ?steps = "[(1 / 2, [1 / 2]), (1, [1]), (2, [2 :: real])]"
  have a: "list_ex (signals_cache ?a) (call_runs ?a [0] ?steps)"
    by code_simp
  have la: "logged_of (call_end ?a [0] ?steps) = [CollisionPlanningError ''table'']"
    by code_simp
  have va: "map_option (map joint_values \<circ> waypoints) (returned (FollowVectorField ?a [0] ?steps))
      = Some [[0], [1 / 2], [1]]"
    by code_simp
  have ta: "t_cache (call_end ?a [0] ?steps) = Some 1"
    by code_simp
  have b: "\<not> list_ex (signals_cache ?b) (call_runs ?b [0] ?steps)"
    by code_simp
  have rb: "raised_of (call_end ?b [0] ?steps) = CollisionPlanningError ''table''"
    by code_simp
  from cached_prefix_or_fault [of ?a "[0]" ?steps] a la obtain traj where
    1: "FollowVectorField ?a [0] ?steps = Inr (traj, [CollisionPlanningError ''table''])"
    by auto
  from va 1 have 2: "map joint_values (waypoints traj) = [[0], [1 / 2], [1]]"
    by (simp add: returned_def)
  from cached_prefix_or_fault [of ?b "[0]" ?steps] b rb
  have 3: "FollowVectorField ?b [0] ?steps = Inl (Some (CollisionPlanningError ''table''))"
    by auto
  have 4: "\<exists>traj. FollowVectorField ?a [0] ?steps
        = Inr (traj, [CollisionPlanningError ''table''])
        \<and> map joint_values (waypoints traj) = [[0], [1 / 2], [1]]"
    by (intro exI conjI, rule 1, rule 2)
  show ?thesis by (intro conjI, rule a, rule 4, rule ta, rule b, rule 3)
qed

subsection \<open>What the returned trajectory consists of\<close>

text \<open>
  Claim C2, as the code has it. Let the solver's step times increase strictly. A
  trajectory that the call returns holds, in order, the joint values of exactly the raw
  waypoints whose cumulative time is strictly less than the cache time (the first \<open>n\<close>
  waypoints, and for every index of the raw path, being below \<open>n\<close> is the same as having
  a time below the cache time), followed by one more waypoint: the joint values of the raw
  path sampled at the cache time. The raw path's times increase strictly. No waypoint of
  the output carries a time: the output has no delta-time group.
\<close>

theorem returned_trajectory_is_truncated_path:
  assumes "sorted_wrt (<) (0 # map fst accepted)"
    and "FollowVectorField env q0 accepted = Inr (traj, logged)"
  shows "\<exists>tc n w. t_cache (call_end env q0 accepted) = Some tc
     \<and> Sample (path (call_end env q0 accepted)) tc = Some w
     \<and> map joint_values (waypoints traj) =
         map snd (take n (path (call_end env q0 accepted))) @ [snd w]
     \<and> (\<forall>i<length (path (call_end env q0 accepted)).
           (i < n) = (waypoint_times (path (call_end env q0 accepted)) ! i < tc))
     \<and> sorted_wrt (<) (waypoint_times (path (call_end env q0 accepted)))
     \<and> list_all (\<lambda>w. deltatime w = None) (waypoints traj)"
proof -
  let ?raw = "path (call_end env q0 accepted)"
  from assms(2) obtain tc where tc: "t_cache (call_end env q0 accepted) = Some tc"
    and b: "build_output ?raw tc = Some traj"
    by (auto simp: FollowVectorField_end finish_def split: option.splits)
  from build_output_waypoints [OF b] obtain w where w: "Sample ?raw tc = Some w"
    and ws: "waypoints traj =
      map to_output_cspec (take (GetFirstWaypointIndexAfterTime ?raw tc) ?raw) @ [to_output_cspec w]"
    by blast
  let ?n = "GetFirstWaypointIndexAfterTime ?raw tc"
  have sorted: "sorted_wrt (<) (waypoint_times ?raw)"
    by (rule call_end_times_sorted [OF assms(1)])
  have exact: "\<forall>i<length ?raw. (i < ?n) = (waypoint_times ?raw ! i < tc)"
    using first_index_exact [of 0 ?raw _ tc] sorted
    by (simp add: GetFirstWaypointIndexAfterTime_def waypoint_times_def)
  have vals: "map joint_values (waypoints traj) = map snd (take ?n ?raw) @ [snd w]"
    by (simp add: ws joint_values_to_output comp_def)
  have none: "list_all (\<lambda>w. deltatime w = None) (waypoints traj)"
    by (simp add: ws list_all_iff deltatime_to_output)
  from tc w vals exact sorted none show ?thesis by blast
qed

text \<open>
  The theorem on a joint that the solver takes from 0 to 3 in one step of 3/2 seconds,
  with the path sampled at whole seconds and a predicate that caches and terminates once
  the joint has reached 2. The cache time is 1; the output holds the start and the path
  sampled at time 1, the configuration 2 between the two raw waypoints.
\<close>

theorem returned_trajectory_is_truncated_path_witness:
  "sorted_wrt (<) (0 # map fst [(3 / 2 :: real, [3 :: real])])
   \<and> (\<exists>traj logged tc n w.
        FollowVectorField
          ((one_dof_scene (\<lambda>k q. Inr (if 2 \<le> q ! 0 then CACHE_AND_TERMINATE else CONTINUE))
              no_obstacle (clock_jump 100))\<lparr>GetCollisionCheckPts := unit_checks\<rparr>)
          [0] [(3 / 2, [3])] = Inr (traj, logged)
        \<and> map joint_values (waypoints traj) = [[0], [2]]
        \<and> t_cache (call_end
            ((one_dof_scene (\<lambda>k q. Inr (if 2 \<le> q ! 0 then CACHE_AND_TERMINATE else CONTINUE))
              no_obstacle (clock_jump 100))\<lparr>GetCollisionCheckPts := unit_checks\<rparr>)
            [0] [(3 / 2, [3])]) = Some tc
        \<and> Sample (path (call_end
            ((one_dof_scene (\<lambda>k q. Inr (if 2 \<le> q ! 0 then CACHE_AND_TERMINATE else CONTINUE))
              no_obstacle (clock_jump 100))\<lparr>GetCollisionCheckPts := unit_checks\<rparr>)
            [0] [(3 / 2, [3])])) tc = Some w
        \<and> map joint_values (waypoints traj) =
            map snd (take n (path (call_end
              ((one_dof_scene (\<lambda>k q. Inr (if 2 \<le> q ! 0 then CACHE_AND_TERMINATE else CONTINUE))
                no_obstacle (clock_jump 100))\<lparr>GetCollisionCheckPts := unit_checks\<rparr>)
              [0] [(3 / 2, [3])]))) @ [snd w])"
proof -
  let ?e = "(one_dof_scene (\<lambda>k q. Inr (if 2 \<le> q ! 0 then CACHE_AND_TERMINATE else CONTINUE))
              no_obstacle (clock_jump 100))\<lparr>GetCollisionCheckPts := unit_checks\<rparr>"
  have a: "sorted_wrt (<) (0 # map fst [(3 / 2 :: real, [3 :: real])])" by simp
  have "case FollowVectorField ?e [0] [(3 / 2, [3])] of
          Inl e \<Rightarrow> False
        | Inr p \<Rightarrow> map joint_values (waypoints (fst p)) = [[0], [2]]"
    by code_simp
  then obtain traj logged where b: "FollowVectorField ?e [0] [(3 / 2, [3])] = Inr (traj, logged)"
    and c: "map joint_values (waypoints traj) = [[0], [2]]"
    by (cases "FollowVectorField ?e [0] [(3 / 2, [3])]") auto
  from returned_trajectory_is_truncated_path [OF a b] obtain tc n w where
    d: "t_cache (call_end ?e [0] [(3 / 2, [3])]) = Some tc"
    and e: "Sample (path (call_end ?e [0] [(3 / 2, [3])])) tc = Some w"
    and f: "map joint_values (waypoints traj) =
        map snd (take n (path (call_end ?e [0] [(3 / 2, [3])]))) @ [snd w]"
    by blast
  show ?thesis
    by (rule conjI [OF a]) (intro exI conjI, rule b, rule c, rule d, rule e, rule f)
qed

text \<open>
  Claim C2 as stated has the waypoint times of the returned trajectory increase strictly.
  In the same call the two waypoints returned carry no time at all, while the raw path
  has the times 0 and 3/2 and the cache time is 1.
\<close>

theorem output_times_counterexample:
  "map_option (map deltatime \<circ> waypoints)
     (returned (FollowVectorField
        ((one_dof_scene (\<lambda>k q. Inr (if 2 \<le> q ! 0 then CACHE_AND_TERMINATE else CONTINUE))
            no_obstacle (clock_jump 100))\<lparr>GetCollisionCheckPts := unit_checks\<rparr>)
        [0] [(3 / 2, [3])]))
     = Some [None, None]
   \<and> map_option (map joint_values \<circ> waypoints)
     (returned (FollowVectorField
        ((one_dof_scene (\<lambda>k q. Inr (if 2 \<le> q ! 0 then CACHE_AND_TERMINATE else CONTINUE))
            no_obstacle (clock_jump 100))\<lparr>GetCollisionCheckPts := unit_checks\<rparr>)
        [0] [(3 / 2, [3])]))
     = Some [[0], [2]]
   \<and> path (call_end
        ((one_dof_scene (\<lambda>k q. Inr (if 2 \<le> q ! 0 then CACHE_AND_TERMINATE else CONTINUE))
            no_obstacle (clock_jump 100))\<lparr>GetCollisionCheckPts := unit_checks\<rparr>)
        [0] [(3 / 2, [3])])
     = [(0, [0]), (3 / 2, [3])]
   \<and> t_cache (call_end
        ((one_dof_scene (\<lambda>k q. Inr (if 2 \<le> q ! 0 then CACHE_AND_TERMINATE else CONTINUE))
            no_obstacle (clock_jump 100))\<lparr>GetCollisionCheckPts := unit_checks\<rparr>)
        [0] [(3 / 2, [3])])
     = Some 1"
  by code_simp

subsection \<open>The copied waypoints keep their order and lose their timing\<close>

text \<open>
  Claim C7, as the code has it. All waypoints of the output but the last are the leading
  waypoints of the raw path up to the truncation index, in the order of the raw path and
  converted to the output's specification: their joint values are copied, every one of
  them has a cumulative time below the cache time, and no waypoint of the output carries
  a time delta.
\<close>

theorem copied_waypoints_keep_order_drop_timing:
  assumes "build_output raw tc = Some traj"
  shows "GetFirstWaypointIndexAfterTime raw tc \<le> length raw
     \<and> butlast (waypoints traj) =
         map to_output_cspec (take (GetFirstWaypointIndexAfterTime raw tc) raw)
     \<and> map joint_values (butlast (waypoints traj)) =
         map snd (take (GetFirstWaypointIndexAfterTime raw tc) raw)
     \<and> (\<forall>i<GetFirstWaypointIndexAfterTime raw tc. waypoint_times raw ! i < tc)
     \<and> list_all (\<lambda>w. deltatime w = None) (waypoints traj)"
proof -
  from build_output_waypoints [OF assms] obtain w where
    ws: "waypoints traj =
      map to_output_cspec (take (GetFirstWaypointIndexAfterTime raw tc) raw) @ [to_output_cspec w]"
    by blast
  have le: "GetFirstWaypointIndexAfterTime raw tc \<le> length raw"
    by (simp add: GetFirstWaypointIndexAfterTime_def first_index_le)
  have before: "\<forall>i<GetFirstWaypointIndexAfterTime raw tc. waypoint_times raw ! i < tc"
    by (simp add: GetFirstWaypointIndexAfterTime_def waypoint_times_def first_index_before)
  have vals: "map joint_values (butlast (waypoints traj)) =
         map snd (take (GetFirstWaypointIndexAfterTime raw tc) raw)"
    by (simp add: ws joint_values_to_output comp_def)
  have none: "list_all (\<lambda>w. deltatime w = None) (waypoints traj)"
    by (simp add: ws list_all_iff deltatime_to_output)
  from le before vals none show ?thesis by (simp add: ws)
qed

text \<open>
  The theorem on a raw path with the waypoints 0, 1 and 2 at the times 0, 1 and 2, cut at
  time 3/2.
\<close>

theorem copied_waypoints_keep_order_drop_timing_witness:
  "\<exists>traj. build_output [(0, [0]), (1, [1]), (1, [2])] (3 / 2) = Some traj
     \<and> GetFirstWaypointIndexAfterTime [(0, [0]), (1, [1]), (1, [2])] (3 / 2) = 2
     \<and> map joint_values (butlast (waypoints traj)) = [[0], [1]]
     \<and> list_all (\<lambda>w. deltatime w = None) (waypoints traj)"
proof -
  from build_output_nonempty [of "[(0, [0]), (1, [1]), (1, [2])]" "3 / 2"]
  obtain traj where a: "build_output [(0, [0]), (1, [1]), (1, [2])] (3 / 2) = Some traj"
    by auto
  have n: "GetFirstWaypointIndexAfterTime [(0, [0 :: real]), (1, [1]), (1, [2])] (3 / 2) = 2"
    by code_simp
  from copied_waypoints_keep_order_drop_timing [OF a] a n show ?thesis
    by (rule_tac x = traj in exI) (simp add: joint_values_to_output)
qed

text \<open>
  Claim C7 as stated has the waypoints copied with their original timing deltas. On the
  same raw path the two copied waypoints had the deltas 0 and 1; in the output every
  delta is absent.
\<close>

theorem timing_deltas_counterexample:
  "map_option (map deltatime \<circ> waypoints) (build_output [(0, [0]), (1, [1]), (1, [2])] (3 / 2))
     = Some [None, None, None]
   \<and> map fst (GetWaypoints [(0, [0]), (1, [1]), (1, [2])] 0
        (GetFirstWaypointIndexAfterTime [(0, [0]), (1, [1]), (1, [2])] (3 / 2)))
     = [0, 1]
   \<and> map_option (map joint_values \<circ> waypoints)
        (build_output [(0, [0]), (1, [1]), (1, [2])] (3 / 2))
     = Some [[0], [1], [3 / 2]]"
  by code_simp

subsection \<open>The tags of the returned trajectory\<close>

text \<open>
  Claim C8 at a concrete call. The trajectory returned carries both tags, and the value
  of each is the Python string \<^verbatim>\<open>'true'\<close>, not a bool. It counts as true where
  \<^verbatim>\<open>PostProcessPath\<close> tests it. \<^verbatim>\<open>PlanToEndEffectorPose\<close> overwrites the tag
  \<^verbatim>\<open>CONSTRAINED\<close> with the bool \<^verbatim>\<open>False\<close>.
\<close>

theorem returned_tags_are_strings:
  "map_option (\<lambda>traj. (tags traj CONSTRAINED, tags traj SMOOTH, tag_is_set traj CONSTRAINED))
     (returned (FollowVectorField
        (one_dof_scene (\<lambda>k q. Inr (if 1 \<le> q ! 0 then CACHE_AND_TERMINATE else CONTINUE))
           no_obstacle (clock_jump 100))
        [0] [(1, [1])]))
     = Some (Some (StrTag ''true''), Some (StrTag ''true''), True)
   \<and> tags (SetTrajectoryTags \<lparr>waypoints = [], tags = [CONSTRAINED \<mapsto> StrTag ''true'']\<rparr>
        [CONSTRAINED \<mapsto> BoolTag False] True) CONSTRAINED
     = Some (BoolTag False)"
  by code_simp

text \<open>
  The predicate of \<^verbatim>\<open>PlanToEndEffectorPose\<close> returns \<^verbatim>\<open>TERMINATE\<close> or \<^verbatim>\<open>CONTINUE\<close>
  only, so it never caches and the call always ends in an error.
\<close>

lemma CloseEnough_never_caches:
  "fn_terminate env = (\<lambda>k q. Inr (CloseEnough pose_error tol q)) \<Longrightarrow> \<not> signals_cache env r"
  by (simp add: signals_cache_def signalled_def CloseEnough_def DoesCache_def)

lemma PlanToEndEffectorPose_raises:
  "\<exists>e. PlanToEndEffectorPose env pose_error tol q0 accepted = Inl (Some e)"
proof -
  let ?env = "env\<lparr>timelimit := 5,
    fn_terminate := (\<lambda>k q. Inr (CloseEnough pose_error tol q))\<rparr>"
  have "fn_terminate ?env = (\<lambda>k q. Inr (CloseEnough pose_error tol q))" by simp
  then have "\<not> list_ex (signals_cache ?env) (call_runs ?env q0 accepted)"
    by (simp add: list_ex_iff CloseEnough_never_caches)
  then have "t_cache (call_end ?env q0 accepted) = None"
    using call_end_cache [of ?env q0 accepted] by simp
  then show ?thesis
    by (simp add: PlanToEndEffectorPose_def FollowVectorField_end finish_uncached)
qed

section \<open>Properties of the operations that give a trajectory\<close>

subsection \<open>What each operation gives back\<close>

lemma finish_not_openrave:
  assumes "path s \<noteq> []"
  shows "finish s \<noteq> Inl None"
proof (cases "t_cache s")
  case None
  then show ?thesis by (simp add: finish_def)
next
  case (Some tc)
  from build_output_nonempty [OF assms, of tc] obtain traj where
    "build_output (path s) tc = Some traj" by blast
  with Some show ?thesis by (simp add: finish_def)
qed

lemma FollowVectorField_not_openrave: "FollowVectorField env q0 accepted \<noteq> Inl None"
  by (simp only: FollowVectorField_end) (rule finish_not_openrave [OF call_end_path])

lemma FollowVectorField_outcome:
  "trajectory_or_fault (map_sum id PyObject (as_outcome (FollowVectorField env q0 accepted)))"
proof (cases "FollowVectorField env q0 accepted")
  case (Inl e)
  then show ?thesis by (cases e) (simp_all add: as_outcome_def trajectory_or_fault_def)
next
  case (Inr p)
  obtain traj logged where p: "p = (traj, logged)" by (cases p)
  from FollowVectorField_nonempty [of env q0 accepted traj logged] Inr p
  show ?thesis by (simp add: as_outcome_def trajectory_or_fault_def)
qed

lemma PlanToEndEffectorOffset_outcome:
  "trajectory_or_fault (map_sum id PyObject (PlanToEndEffectorOffset env rq q0 accepted))"
  using FollowVectorField_outcome
  by (simp add: PlanToEndEffectorOffset_def trajectory_or_fault_def)

lemma Snap_outcome:
  "trajectory_or_fault (map_sum id PyObject (Snap current goal tol))"
  by (simp add: Snap_def trajectory_or_fault_def split: option.splits)

lemma PostProcessPath_outcome:
  assumes "returns_nonempty (retimer co)" and "returns_nonempty (smoother co)"
  shows "trajectory_or_fault (map_sum id PyObject (PostProcessPath co untimed constrained))"
proof (cases "PostProcessPath co untimed constrained")
  case (Inl e)
  then show ?thesis by (simp add: trajectory_or_fault_def)
next
  case (Inr t)
  then have "retimer co untimed = Inr t \<or> (\<exists>sp. smoother co sp = Inr t)"
    by (auto simp: PostProcessPath_def Let_def split: if_splits sum.splits)
  with assms have "waypoints t \<noteq> []" by (auto simp: returns_nonempty_def)
  with Inr show ?thesis by (simp add: trajectory_or_fault_def)
qed

lemma do_poll_find:
  "do_poll ts polls traj =
    (case find (ends_poll ts) polls of
       None \<Rightarrow> None
     | Some p \<Rightarrow> Some (if before_stop (fst p) ts then PyObject traj else PyNone))"
proof (induction polls)
  case Nil
  then show ?case by simp
next
  case (Cons p polls)
  obtain now dones where p: "p = (now, dones)" by (cases p)
  show ?case using Cons p by (simp add: ends_poll_def)
qed

lemma past_stop:
  "\<not> before_stop a (time_stop_of now timeout) \<Longrightarrow>
     \<exists>x. timeout = Some x \<and> x \<noteq> 0 \<and> now + x < a"
  by (cases timeout) (auto simp: before_stop_def time_stop_of_def split: if_splits)

lemma ExecuteTrajectory_sync_outcome:
  assumes "waypoints traj \<noteq> []"
    and "ExecuteTrajectory co traj False timeout now polls = Some r"
  shows "trajectory_or_fault r"
  using assms
  by (auto simp: ExecuteTrajectory_def trajectory_or_fault_def split: option.splits)

lemma ExecutePath_outcome:
  assumes "returns_nonempty (retimer co)" and "returns_nonempty (smoother co)"
    and "ExecutePath co untimed d rejected = Some r"
  shows "trajectory_or_fault r"
proof (cases rejected)
  case True
  with assms(3) show ?thesis by (auto simp: ExecutePath_def trajectory_or_fault_def)
next
  case False
  show ?thesis
  proof (cases "PostProcessPath co untimed None")
    case (Inl e)
    with False assms(3) show ?thesis by (auto simp: ExecutePath_def trajectory_or_fault_def)
  next
    case (Inr t)
    from PostProcessPath_outcome [OF assms(1,2), of untimed None] Inr
    have ne: "waypoints t \<noteq> []" by (simp add: trajectory_or_fault_def)
    from False Inr assms(3) have "ExecuteTrajectory co t False None 0 [] = Some r"
      by (simp add: ExecutePath_def)
    from ExecuteTrajectory_sync_outcome [OF ne this] show ?thesis .
  qed
qed

lemma ExecutePath_blocks:
  "ExecutePath co untimed d rejected = None \<Longrightarrow> WaitForControllers co None = None"
  by (auto simp: ExecutePath_def ExecuteTrajectory_def Let_def
      split: if_splits sum.splits option.splits)

lemma PlanWrapper_outcome:
  assumes "returns_nonempty (retimer co)" and "returns_nonempty (smoother co)"
    and "trajectory_or_fault (map_sum id PyObject planned)"
    and "PlanWrapper co planned kw_defer kw_execute = Some r"
  shows "trajectory_or_fault r"
proof (cases planned)
  case (Inl e)
  with assms(4) show ?thesis by (auto simp: PlanWrapper_def trajectory_or_fault_def)
next
  case (Inr result)
  show ?thesis
  proof (cases "case kw_execute of None \<Rightarrow> True | Some b \<Rightarrow> b")
    case True
    with Inr assms(4) have "ExecutePath co result
        (case kw_defer of None \<Rightarrow> False | Some d \<Rightarrow> d) (kw_execute \<noteq> None) = Some r"
      by (simp add: PlanWrapper_def)
    from ExecutePath_outcome [OF assms(1,2) this] show ?thesis .
  next
    case False
    with Inr assms(3,4) show ?thesis by (auto simp: PlanWrapper_def trajectory_or_fault_def)
  qed
qed

lemma PlanWrapper_blocks:
  "PlanWrapper co planned kw_defer kw_execute = None \<Longrightarrow> WaitForControllers co None = None"
  using ExecutePath_blocks
  by (auto simp: PlanWrapper_def split: sum.splits if_splits)

subsection \<open>A trajectory, an exception, or the timeout of a deferred execution\<close>

text \<open>
  Claim C9, as the code has it. Let the post-processing planners return no empty
  trajectory, and let the trajectory given to \<^verbatim>\<open>ExecuteTrajectory\<close> and the one that the
  wrapped planning method returns have a waypoint. Then:

  \<^item> \<^verbatim>\<open>FollowVectorField\<close>, \<^verbatim>\<open>PlanToEndEffectorOffset\<close>, the snap planner's
    \<^verbatim>\<open>PlanToConfiguration\<close> and \<^verbatim>\<open>PlanToEndEffectorPose\<close>, and \<^verbatim>\<open>PostProcessPath\<close> give
    an exception or a trajectory with at least one waypoint; \<^verbatim>\<open>FollowVectorField\<close>
    never fails with an error of OpenRAVE; \<^verbatim>\<open>PlanToEndEffectorPose\<close> of the vector field
    planner always raises;
  \<^item> a deferred \<^verbatim>\<open>ExecuteTrajectory\<close> ends at the first poll that finds every controller
    done or the deadline passed, and not before; its result is the trajectory it was
    given when that poll is within the deadline and \<^verbatim>\<open>None\<close> when it is not, which
    takes a timeout that is not zero;
  \<^item> an \<^verbatim>\<open>ExecuteTrajectory\<close> that is not deferred returns exactly when the wait for
    the controllers does, and then gives the trajectory or the wait's exception;
  \<^item> \<^verbatim>\<open>ExecutePath\<close> and the planning wrapper, deferred or not, give an exception or a
    trajectory with a waypoint whenever they return, and return unless the wait for the
    controllers never does.
\<close>

theorem trajectory_or_explicit_fault:
  assumes "returns_nonempty (retimer co)" and "returns_nonempty (smoother co)"
    and "waypoints traj \<noteq> []"
    and "trajectory_or_fault (map_sum id PyObject planned)"
  shows "trajectory_or_fault (map_sum id PyObject (as_outcome (FollowVectorField env q0 accepted)))
   \<and> FollowVectorField env q0 accepted \<noteq> Inl None
   \<and> (\<exists>e. PlanToEndEffectorPose env pose_error tol q0 accepted = Inl (Some e))
   \<and> trajectory_or_fault (map_sum id PyObject (PlanToEndEffectorOffset env rq q0 accepted))
   \<and> trajectory_or_fault (map_sum id PyObject (PlanToConfiguration current goal snap_tolerance))
   \<and> trajectory_or_fault (map_sum id PyObject
        (SnapToEndEffectorPose ik_solutions first_sorted current snap_tolerance))
   \<and> trajectory_or_fault (map_sum id PyObject (PostProcessPath co untimed constrained))
   \<and> ExecuteTrajectory co traj True timeout now polls =
       (case find (ends_poll (time_stop_of now timeout)) polls of
          None \<Rightarrow> None
        | Some p \<Rightarrow>
            Some (Inr (if before_stop (fst p) (time_stop_of now timeout) then PyObject traj
                       else PyNone)))
   \<and> (\<forall>p. \<not> before_stop (fst p) (time_stop_of now timeout) \<longrightarrow>
          (\<exists>x. timeout = Some x \<and> x \<noteq> 0 \<and> now + x < fst p))
   \<and> (ExecuteTrajectory co traj False timeout now polls = None)
       = (WaitForControllers co timeout = None)
   \<and> (\<forall>r. ExecuteTrajectory co traj False timeout now polls = Some r \<longrightarrow> trajectory_or_fault r)
   \<and> (\<forall>r. ExecutePath co untimed deferred rejected = Some r \<longrightarrow> trajectory_or_fault r)
   \<and> (ExecutePath co untimed deferred rejected = None \<longrightarrow> WaitForControllers co None = None)
   \<and> (\<forall>r. PlanWrapper co planned kw_defer kw_execute = Some r \<longrightarrow> trajectory_or_fault r)
   \<and> (PlanWrapper co planned kw_defer kw_execute = None \<longrightarrow> WaitForControllers co None = None)"
proof (intro conjI allI impI)
  show "trajectory_or_fault (map_sum id PyObject (as_outcome (FollowVectorField env q0 accepted)))"
    by (rule FollowVectorField_outcome)
  show "FollowVectorField env q0 accepted \<noteq> Inl None"
    by (rule FollowVectorField_not_openrave)
  show "\<exists>e. PlanToEndEffectorPose env pose_error tol q0 accepted = Inl (Some e)"
    by (rule PlanToEndEffectorPose_raises)
  show "trajectory_or_fault (map_sum id PyObject (PlanToEndEffectorOffset env rq q0 accepted))"
    by (rule PlanToEndEffectorOffset_outcome)
  show "trajectory_or_fault (map_sum id PyObject (PlanToConfiguration current goal snap_tolerance))"
    by (simp only: PlanToConfiguration_def Snap_outcome)
  show "trajectory_or_fault (map_sum id PyObject
        (SnapToEndEffectorPose ik_solutions first_sorted current snap_tolerance))"
    using Snap_outcome [of current first_sorted snap_tolerance]
    by (simp add: SnapToEndEffectorPose_def trajectory_or_fault_def)
  show "trajectory_or_fault (map_sum id PyObject (PostProcessPath co untimed constrained))"
    by (rule PostProcessPath_outcome [OF assms(1,2)])
  show "ExecuteTrajectory co traj True timeout now polls =
       (case find (ends_poll (time_stop_of now timeout)) polls of
          None \<Rightarrow> None
        | Some p \<Rightarrow>
            Some (Inr (if before_stop (fst p) (time_stop_of now timeout) then PyObject traj
                       else PyNone)))"
    by (simp add: ExecuteTrajectory_def do_poll_find split: option.splits)
  show "(ExecuteTrajectory co traj False timeout now polls = None)
       = (WaitForControllers co timeout = None)"
    by (simp add: ExecuteTrajectory_def split: option.splits)
next
  fix p
  assume "\<not> before_stop (fst p) (time_stop_of now timeout)"
  then show "\<exists>x. timeout = Some x \<and> x \<noteq> 0 \<and> now + x < fst p" by (rule past_stop)
next
  fix r
  assume "ExecuteTrajectory co traj False timeout now polls = Some r"
  then show "trajectory_or_fault r" by (rule ExecuteTrajectory_sync_outcome [OF assms(3)])
next
  fix r
  assume "ExecutePath co untimed deferred rejected = Some r"
  then show "trajectory_or_fault r" by (rule ExecutePath_outcome [OF assms(1,2)])
next
  assume "ExecutePath co untimed deferred rejected = None"
  then show "WaitForControllers co None = None" by (rule ExecutePath_blocks)
next
  fix r
  assume "PlanWrapper co planned kw_defer kw_execute = Some r"
  then show "trajectory_or_fault r" by (rule PlanWrapper_outcome [OF assms(1,2,4)])
next
  assume "PlanWrapper co planned kw_defer kw_execute = None"
  then show "WaitForControllers co None = None" by (rule PlanWrapper_blocks)
qed

text \<open>
  The theorem with planners that keep the path and a wait that returns: a deferred
  execution whose two controllers are both done at the second poll, one without a
  timeout whose second controller is never seen done and which has not returned, an
  execution that is not deferred, a deferred \<^verbatim>\<open>ExecutePath\<close>, and the planning wrapper
  with and without the keyword \<^verbatim>\<open>execute\<close>.
\<close>

theorem trajectory_or_explicit_fault_witness:
  "returns_nonempty (retimer herb)
   \<and> returns_nonempty (smoother herb)
   \<and> waypoints two_waypoints \<noteq> []
   \<and> trajectory_or_fault (map_sum id PyObject (Inr two_waypoints))
   \<and> ExecuteTrajectory herb two_waypoints True (Some 1) 0
        [(1 / 4, [False, True]), (1 / 2, [True, True])] = Some (Inr (PyObject two_waypoints))
   \<and> ExecuteTrajectory herb two_waypoints True None 0
        [(1 / 4, [False, True]), (1 / 2, [True, False])] = None
   \<and> ExecuteTrajectory herb two_waypoints False None 0 [] = Some (Inr (PyObject two_waypoints))
   \<and> ExecutePath herb two_waypoints True False = Some (Inr (PyObject two_waypoints))
   \<and> PlanWrapper herb (Inr two_waypoints) (Some True) None = Some (Inr (PyObject two_waypoints))
   \<and> PlanWrapper herb (Inr two_waypoints) None (Some True) = Some (Inl TypeError)
   \<and> trajectory_or_fault (Inr (PyObject two_waypoints))"
proof -
  have h1: "returns_nonempty (retimer herb)"
    by (auto simp: herb_def returns_nonempty_def keep_path_def split: if_splits)
  have h2: "returns_nonempty (smoother herb)"
    by (auto simp: herb_def returns_nonempty_def keep_path_def split: if_splits)
  have h3: "waypoints two_waypoints \<noteq> []" by (simp add: two_waypoints_def)
  have h4: "trajectory_or_fault (map_sum id PyObject (Inr two_waypoints))"
    by (simp add: trajectory_or_fault_def h3)
  note all = trajectory_or_explicit_fault [OF h1 h2 h3 h4]
  from all [where timeout = "Some 1" and now = 0
      and polls = "[(1 / 4, [False, True]), (1 / 2, [True, True])]"]
  have a: "ExecuteTrajectory herb two_waypoints True (Some 1) 0
        [(1 / 4, [False, True]), (1 / 2, [True, True])] = Some (Inr (PyObject two_waypoints))"
    by (simp add: ends_poll_def before_stop_def time_stop_of_def)
  from all [where timeout = None and now = 0
      and polls = "[(1 / 4, [False, True]), (1 / 2, [True, False])]"]
  have b: "ExecuteTrajectory herb two_waypoints True None 0
        [(1 / 4, [False, True]), (1 / 2, [True, False])] = None"
    by (simp add: ends_poll_def before_stop_def time_stop_of_def)
  have c: "ExecuteTrajectory herb two_waypoints False None 0 [] = Some (Inr (PyObject two_waypoints))"
    by (simp add: ExecuteTrajectory_def herb_def)
  have pp: "PostProcessPath herb two_waypoints None = Inr two_waypoints"
    using h3 by (simp add: PostProcessPath_def herb_def keep_path_def tag_is_set_def
        two_waypoints_def)
  have d: "ExecutePath herb two_waypoints True False = Some (Inr (PyObject two_waypoints))"
    by (simp add: ExecutePath_def pp c)
  have d': "ExecutePath herb two_waypoints True False = ExecutePath herb two_waypoints False False"
    by (simp add: ExecutePath_def)
  have e: "PlanWrapper herb (Inr two_waypoints) (Some True) None
      = Some (Inr (PyObject two_waypoints))"
    by (simp add: PlanWrapper_def d)
  have f: "PlanWrapper herb (Inr two_waypoints) None (Some True) = Some (Inl TypeError)"
    by (simp add: PlanWrapper_def ExecutePath_def)
  from all [where kw_defer = "Some True" and kw_execute = None] e
  have g: "trajectory_or_fault (Inr (PyObject two_waypoints))"
    by blast
  show ?thesis
    by (intro conjI, rule h1, rule h2, rule h3, rule h4, rule a, rule b, rule c, rule d, rule e,
        rule f, rule g)
qed

text \<open>
  Claim C9 as stated has no path return \<^verbatim>\<open>None\<close>. A deferred execution with a timeout
  of one second whose controller is not done at the polls of 0.5 and 1.5 seconds ends
  with \<^verbatim>\<open>None\<close>.
\<close>

theorem deferred_timeout_counterexample:
  "ExecuteTrajectory herb two_waypoints True (Some 1) 0
     [(1 / 2, [False]), (3 / 2, [False])] = Some (Inr PyNone)
   \<and> \<not> trajectory_or_fault (Inr PyNone)"
  by (simp add: ExecuteTrajectory_def time_stop_of_def before_stop_def trajectory_or_fault_def)

end
